theory Spec2Isabelle
  imports Complex_Main "HOL-Library.AList" "HOL-Library.Log_Nat"
begin

section \<open>JavaScript values used by the tour extension\<close>

text \<open>
  The extension is written in JavaScript. A number is either a proper value or \<open>NaN\<close>
  (no division occurs in the modelled code, so the infinities never arise). A step index
  is an integer, far below \<open>2^53\<close>, where the arithmetic of JavaScript is exact: indices
  are modelled as \<open>int\<close>. A pixel coordinate is a double, modelled as the rational
  number it denotes, with the rounding of every addition and subtraction written out
  (see below).
\<close>

datatype 'a jsnum = Num 'a | NaN

text \<open>\<open>+\<close> and \<open>-\<close> on step indices.\<close>

fun js_add :: "int jsnum \<Rightarrow> int jsnum \<Rightarrow> int jsnum" where
  "js_add (Num a) (Num b) = Num (a + b)"
| "js_add _ _ = NaN"

fun js_sub :: "int jsnum \<Rightarrow> int jsnum \<Rightarrow> int jsnum" where
  "js_sub (Num a) (Num b) = Num (a - b)"
| "js_sub _ _ = NaN"

text \<open>\<open>Math.max\<close>: \<open>NaN\<close> as soon as one argument is \<open>NaN\<close>.\<close>

fun js_max :: "'a::linorder jsnum \<Rightarrow> 'a jsnum \<Rightarrow> 'a jsnum" where
  "js_max (Num a) (Num b) = Num (max a b)"
| "js_max _ _ = NaN"

text \<open>
  The remainder operator \<open>%\<close> on integers: the result has the sign of the dividend, and
  a zero divisor gives \<open>NaN\<close>.
\<close>

fun js_rem :: "int jsnum \<Rightarrow> int jsnum \<Rightarrow> int jsnum" where
  "js_rem (Num a) (Num b) = (if b = 0 then NaN else Num (sgn a * (\<bar>a\<bar> mod \<bar>b\<bar>)))"
| "js_rem _ _ = NaN"

text \<open>The comparison \<open><\<close>: false as soon as one side is \<open>NaN\<close>.\<close>

fun js_less :: "'a::ord jsnum \<Rightarrow> 'a jsnum \<Rightarrow> bool" where
  "js_less (Num a) (Num b) = (a < b)"
| "js_less _ _ = False"

text \<open>
  Array read \<open>items[i]\<close>: \<open>undefined\<close> (here \<open>None\<close>) unless \<open>i\<close> is an index of the
  array; in particular \<open>items[NaN]\<close> is \<open>undefined\<close>.
\<close>

fun js_index :: "'a list \<Rightarrow> int jsnum \<Rightarrow> 'a option" where
  "js_index xs (Num i) = (if 0 \<le> i \<and> i < int (length xs) then Some (xs ! nat i) else None)"
| "js_index xs NaN = None"

section \<open>Double arithmetic\<close>

text \<open>
  A double is a rational \<open>k * 2^e\<close> with an integer \<open>k\<close> below \<open>2^53\<close> in absolute value.
  JavaScript computes \<open>a + b\<close> and \<open>a - b\<close> as the exact result rounded to the nearest
  double, a tie going to the double with the even significand; a number literal such as
  \<open>0.1\<close> denotes the double nearest to it. The exponent range of the format is left out:
  the model neither overflows to an infinity nor loses precision near zero, which
  pixel coordinates are far from.
\<close>

definition pow2 :: "int \<Rightarrow> rat" where
  "pow2 e = (if 0 \<le> e then 2 ^ nat e else 1 / 2 ^ nat (- e))"

text \<open>
  The integer \<open>L\<close> with \<open>2^L \<le> a < 2^(L+1)\<close>, for \<open>a > 0\<close>: the difference of the bit
  lengths of numerator and denominator, or one less.
\<close>

definition ilog2 :: "rat \<Rightarrow> int" where
  "ilog2 a =
     (case quotient_of a of (n, d) \<Rightarrow>
        (let e0 = int (floorlog 2 (nat n)) - int (floorlog 2 (nat d))
         in if pow2 e0 \<le> a then e0 else e0 - 1))"

text \<open>Rounding to the nearest integer, a tie going to the even one.\<close>

definition round_half_even :: "rat \<Rightarrow> int" where
  "round_half_even m =
     (let f = \<lfloor>m\<rfloor>; r = m - of_int f
      in if r < 1 / 2 then f else if 1 / 2 < r then f + 1
         else if even f then f else f + 1)"

text \<open>
  Rounding to the nearest double: the number is scaled so that it lies between \<open>2^52\<close>
  and \<open>2^53\<close>, rounded to an integer, and scaled back.
\<close>

definition round_to_double :: "rat \<Rightarrow> rat" where
  "round_to_double q =
     (if q = 0 then 0
      else (let e = ilog2 \<bar>q\<bar> - 52
            in sgn q * of_int (round_half_even (\<bar>q\<bar> / pow2 e)) * pow2 e))"

text \<open>\<open>+\<close> and \<open>-\<close> on coordinates.\<close>

fun dbl_add :: "rat jsnum \<Rightarrow> rat jsnum \<Rightarrow> rat jsnum" where
  "dbl_add (Num a) (Num b) = Num (round_to_double (a + b))"
| "dbl_add _ _ = NaN"

fun dbl_sub :: "rat jsnum \<Rightarrow> rat jsnum \<Rightarrow> rat jsnum" where
  "dbl_sub (Num a) (Num b) = Num (round_to_double (a - b))"
| "dbl_sub _ _ = NaN"

section \<open>App.jsx: state of the tour player\<close>

text \<open>
  A CSS size as the code writes it into a style object: a number (pixels), the string
  \<open>"100%"\<close>, or the string \<open>"auto"\<close>.
\<close>

datatype css_size = Px "rat jsnum" | Percent rat | Auto

record box =
  box_top :: "rat jsnum"
  box_left :: "rat jsnum"
  box_width :: css_size
  box_height :: "rat jsnum"

record positions =
  pos_top :: box
  pos_left :: box
  pos_right :: box
  pos_bottom :: box

record text_box =
  tb_width :: "rat jsnum"
  tb_height :: css_size
  tb_top :: "rat jsnum"
  tb_left :: "rat jsnum"

text \<open>
  \<open>extensionPosition\<close>: position and size of the extension's own dashboard object. The
  numbers that the host supplies, here and in the details below, are doubles.
\<close>

record ext_rect =
  ext_x :: rat
  ext_y :: rat
  ext_width :: rat
  ext_height :: rat

text \<open>
  The \<open>details\<close> of a tour item are \<open>objectDetailsMap[objectId] || {}\<close>: the entry of the
  object map, with the fields \<open>name\<close>, \<open>x\<close>, \<open>y\<close>, \<open>width\<close>, \<open>height\<close> in this order, or
  the empty object when the id is not a key of the map. Both are truthy.
\<close>

datatype details =
    Details string rat rat rat rat
  | EmptyObject

text \<open>
  Destructuring \<open>const { x, y, width, height } = item.details\<close>: on the empty object
  every field is \<open>undefined\<close>. Each of the four is only ever used as an operand of
  \<open>+\<close> or \<open>-\<close> with a number, where \<open>undefined\<close> converts to \<open>NaN\<close>.
\<close>

fun details_x :: "details \<Rightarrow> rat jsnum" where
  "details_x (Details n x y w h) = Num x"
| "details_x EmptyObject = NaN"

fun details_y :: "details \<Rightarrow> rat jsnum" where
  "details_y (Details n x y w h) = Num y"
| "details_y EmptyObject = NaN"

fun details_width :: "details \<Rightarrow> rat jsnum" where
  "details_width (Details n x y w h) = Num w"
| "details_width EmptyObject = NaN"

fun details_height :: "details \<Rightarrow> rat jsnum" where
  "details_height (Details n x y w h) = Num h"
| "details_height EmptyObject = NaN"

record tour_item =
  item_objectId :: string
  item_text :: string
  item_position :: string
  item_details :: details

record app_state =
  tourItems :: "tour_item list"
  currentStep :: "int jsnum"
  boxPositions :: "positions option"
  extensionPosition :: "ext_rect option"
  textPosition :: "text_box option"
  textVisible :: bool
  selectedFont :: string
  backgroundColor :: string
  backgroundTransparency :: string

text \<open>
  The initial values of the \<open>useState\<close> hooks. \<open>boxPositions\<close> starts as the empty
  object \<open>{}\<close> (no box is drawn), modelled as \<open>None\<close>; the default transparency is the
  number 70, kept here in its string form.
\<close>

definition initial_state :: app_state where
  "initial_state =
     \<lparr> tourItems = [], currentStep = Num 0, boxPositions = None,
       extensionPosition = None, textPosition = None, textVisible = False,
       selectedFont = ''Roboto'', backgroundColor = ''#000000'',
       backgroundTransparency = ''70'' \<rparr>"

section \<open>App.jsx: updateBoxPositions\<close>

text \<open>The literal \<open>0.1\<close>.\<close>

definition verticalOverlap :: rat where
  "verticalOverlap = round_to_double (1 / 10)"

definition maxTextBoxWidth :: rat where
  "maxTextBoxWidth = 300"

definition textPadding :: rat where
  "textPadding = 10"

text \<open>
  The object literal \<open>positions\<close> of the four grey boxes, with the overlap as an
  argument; \<open>x\<close>, \<open>y\<close>, \<open>width\<close>, \<open>height\<close> are the destructured details. The
  product \<open>textPadding * 3\<close> below is the integer 30, and \<open>Math.max\<close> does not round.
\<close>

definition grey_boxes ::
  "rat \<Rightarrow> rat jsnum \<Rightarrow> rat jsnum \<Rightarrow> rat jsnum \<Rightarrow> rat jsnum \<Rightarrow> ext_rect \<Rightarrow> positions" where
  "grey_boxes overlap x y w h ext =
     (let adjustedX = dbl_sub x (Num (ext_x ext));
          adjustedY = dbl_sub y (Num (ext_y ext))
      in \<lparr> pos_top =
             \<lparr> box_top = Num 0, box_left = Num 0, box_width = Percent 100,
               box_height = adjustedY \<rparr>,
           pos_left =
             \<lparr> box_top = adjustedY, box_left = Num 0, box_width = Px adjustedX,
               box_height = dbl_add h (Num overlap) \<rparr>,
           pos_right =
             \<lparr> box_top = adjustedY, box_left = dbl_add adjustedX w,
               box_width = Px (dbl_sub (Num (ext_width ext)) (dbl_add adjustedX w)),
               box_height = dbl_add h (Num overlap) \<rparr>,
           pos_bottom =
             \<lparr> box_top = dbl_add adjustedY h, box_left = Num 0, box_width = Percent 100,
               box_height = dbl_sub (Num (ext_height ext)) (dbl_add adjustedY h) \<rparr> \<rparr>)"

text \<open>
  The \<open>switch (item.position)\<close> that places the text box. The object starts as
  \<open>{ width: maxTextBoxWidth, height: "auto" }\<close>; every branch assigns both \<open>top\<close> and
  \<open>left\<close>, so the placeholders of the two fields below never survive. The last branch is
  \<open>case "bottom": default:\<close>.
\<close>

definition text_box_position ::
  "string \<Rightarrow> rat jsnum \<Rightarrow> rat jsnum \<Rightarrow> rat jsnum \<Rightarrow> rat jsnum \<Rightarrow> ext_rect \<Rightarrow> text_box" where
  "text_box_position pos x y w h ext =
     (let adjustedX = dbl_sub x (Num (ext_x ext));
          adjustedY = dbl_sub y (Num (ext_y ext));
          textBoxPosition =
            \<lparr> tb_width = Num maxTextBoxWidth, tb_height = Auto,
              tb_top = NaN, tb_left = NaN \<rparr>
      in if pos = ''right'' then
           textBoxPosition
             \<lparr> tb_top := adjustedY,
               tb_left := dbl_add (dbl_add adjustedX w) (Num textPadding) \<rparr>
         else if pos = ''left'' then
           textBoxPosition
             \<lparr> tb_top := adjustedY,
               tb_left :=
                 js_max (dbl_sub (dbl_sub adjustedX (Num maxTextBoxWidth)) (Num (textPadding * 3)))
                        (Num 0) \<rparr>
         else if pos = ''top'' then
           textBoxPosition
             \<lparr> tb_top := js_max (dbl_sub h (Num (textPadding * 3))) (Num 0),
               tb_left := adjustedX \<rparr>
         else
           textBoxPosition
             \<lparr> tb_top := dbl_add (dbl_add adjustedY h) (Num textPadding),
               tb_left := adjustedX \<rparr>)"

text \<open>
  \<open>updateBoxPositions(stepIndex, items)\<close>. The guard \<open>item?.details && extensionPosition\<close>
  fails when \<open>items[stepIndex]\<close> is \<open>undefined\<close> or the extension position is still
  \<open>null\<close>; the details of an item are an object, hence truthy, whether the object was
  found or not.
\<close>

definition updateBoxPositions :: "int jsnum \<Rightarrow> tour_item list \<Rightarrow> app_state \<Rightarrow> app_state" where
  "updateBoxPositions stepIndex items st =
     (case js_index items stepIndex of
        None \<Rightarrow> st
      | Some item \<Rightarrow>
          (case extensionPosition st of
             None \<Rightarrow> st
           | Some ext \<Rightarrow>
               (let x = details_x (item_details item);
                    y = details_y (item_details item);
                    w = details_width (item_details item);
                    h = details_height (item_details item)
                in st \<lparr> boxPositions := Some (grey_boxes verticalOverlap x y w h ext),
                        textPosition := Some (text_box_position (item_position item) x y w h ext),
                        textVisible := True \<rparr>)))"

section \<open>Settings of the host and their keys\<close>

text \<open>
  The host keeps the settings as a flat store of string values under string keys,
  modelled as an association list (\<open>settings.set\<close> is \<open>AList.update\<close>, \<open>settings.erase\<close> is
  \<open>AList.delete\<close>, \<open>settings[key]\<close> of the object returned by \<open>getAll()\<close> is \<open>map_of\<close>).
\<close>

type_synonym settings = "(string \<times> string) list"

text \<open>\<open>settings[key] || dflt\<close>: the default replaces a missing and an empty value.\<close>

definition setting_or :: "settings \<Rightarrow> string \<Rightarrow> string \<Rightarrow> string" where
  "setting_or s key dflt =
     (case map_of s key of None \<Rightarrow> dflt | Some v \<Rightarrow> if v = [] then dflt else v)"

definition digit_char :: "nat \<Rightarrow> char" where
  "digit_char d = ''0123456789'' ! d"

definition is_digit :: "char \<Rightarrow> bool" where
  "is_digit c = (c \<in> set ''0123456789'')"

definition digit_val :: "char \<Rightarrow> nat" where
  "digit_val c =
     (case map_of
             [(CHR ''0'', 0), (CHR ''1'', 1), (CHR ''2'', 2), (CHR ''3'', 3), (CHR ''4'', 4),
              (CHR ''5'', 5), (CHR ''6'', 6), (CHR ''7'', 7), (CHR ''8'', 8), (CHR ''9'', 9)] c of
        Some d \<Rightarrow> d
      | None \<Rightarrow> 0)"

text \<open>
  \<open>n.toString()\<close> and the interpolation \<open>${n}\<close> of a non-negative integer: its decimal
  digits, without leading zeros.
\<close>

fun dec :: "nat \<Rightarrow> string" where
  "dec n = (if n < 10 then [digit_char n] else dec (n div 10) @ [digit_char (n mod 10)])"

declare dec.simps [simp del]

text \<open>\<open>toString()\<close> of an integer-valued number or \<open>NaN\<close>.\<close>

fun js_toString :: "int jsnum \<Rightarrow> string" where
  "js_toString NaN = ''NaN''"
| "js_toString (Num k) = (if k < 0 then ''-'' @ dec (nat (- k)) else dec (nat k))"

definition is_space :: "char \<Rightarrow> bool" where
  "is_space c = (c \<in> set [CHR '' '', CHR 0x09, CHR 0x0A, CHR 0x0B, CHR 0x0C, CHR 0x0D])"

definition digits_value :: "string \<Rightarrow> nat" where
  "digits_value ds = foldl (\<lambda>a c. 10 * a + digit_val c) 0 ds"

text \<open>
  \<open>parseInt(s, 10)\<close>: leading white space is skipped, one sign is accepted, the longest
  run of decimal digits is read and the rest of the string is ignored; without a digit
  the result is \<open>NaN\<close>. Strings are byte strings here, so only the ASCII white space
  is skipped, and the value of the digits is kept exact, as JavaScript keeps it below
  \<open>2^53\<close>: the model is that of \<open>parseInt\<close> on the row counts that \<open>handleSave\<close> writes.
\<close>

definition parseInt :: "string \<Rightarrow> int jsnum" where
  "parseInt s =
     (let t = dropWhile is_space s;
          negative = (case t of [] \<Rightarrow> False | c # r \<Rightarrow> c = CHR ''-'');
          u = (case t of [] \<Rightarrow> t
               | c # r \<Rightarrow> if c = CHR ''-'' \<or> c = CHR ''+'' then r else t);
          ds = takeWhile is_digit u
      in if ds = [] then NaN
         else Num ((if negative then - 1 else 1) * int (digits_value ds)))"

text \<open>The template literals \<open>`tour${i}_object`\<close>, \<open>`tour${i}_text`\<close>, \<open>`tour${i}_position`\<close>.\<close>

definition tour_key :: "nat \<Rightarrow> string \<Rightarrow> string" where
  "tour_key i field = ''tour'' @ dec i @ field"

text \<open>
  The counting loop \<open>for (let i = 0; i < rowCount; i++) body\<close>, started at \<open>i\<close>; the
  bound may be \<open>NaN\<close>, and then the body never runs.
\<close>

fun loop_bound :: "int jsnum \<Rightarrow> nat" where
  "loop_bound (Num k) = nat k"
| "loop_bound NaN = 0"

function for_loop :: "nat \<Rightarrow> int jsnum \<Rightarrow> (nat \<Rightarrow> 'a \<Rightarrow> 'a) \<Rightarrow> 'a \<Rightarrow> 'a" where
  "for_loop i n body acc =
     (if js_less (Num (int i)) n then for_loop (Suc i) n body (body i acc) else acc)"
  by pat_completeness auto
termination
proof (relation "measure (\<lambda>(i, n, body, acc). loop_bound n - i)")
  show "wf (measure (\<lambda>(i, n, body, acc). loop_bound n - i))"
    by simp
next
  fix i :: nat and n :: "int jsnum" and body :: "nat \<Rightarrow> 'a \<Rightarrow> 'a" and acc :: 'a
  assume "js_less (Num (int i)) n"
  then show "((Suc i, n, body, body i acc), (i, n, body, acc))
               \<in> measure (\<lambda>(i, n, body, acc). loop_bound n - i)"
    by (cases n) auto
qed

declare for_loop.simps [simp del]

section \<open>App.jsx: loading the tour and moving through it\<close>

text \<open>
  An object of the dashboard as the host lists it. The numeric id is kept in the string
  form under which it is a key of \<open>objectDetailsMap\<close> and a value of the settings.
\<close>

record dashboard_object =
  obj_id :: string
  obj_name :: string
  obj_x :: rat
  obj_y :: rat
  obj_width :: rat
  obj_height :: rat

text \<open>
  \<open>dashboard.objects.reduce(...)\<close>: a later object replaces an earlier one with the same
  id. On a number, \<open>v || 0\<close> is \<open>v\<close>.
\<close>

definition objectDetailsMap :: "dashboard_object list \<Rightarrow> string \<rightharpoonup> details" where
  "objectDetailsMap objects =
     fold (\<lambda>obj acc. acc(obj_id obj \<mapsto>
             Details (if obj_name obj = [] then ''Object '' @ obj_id obj else obj_name obj)
                     (obj_x obj) (obj_y obj) (obj_width obj) (obj_height obj)))
          objects Map.empty"

text \<open>
  One round of the loop of \<open>refreshTourItems\<close>. A setting is a string or missing, so
  \<open>objectId && text\<close> holds exactly when both are present and not empty.
\<close>

definition refresh_step ::
  "settings \<Rightarrow> (string \<rightharpoonup> details) \<Rightarrow> nat \<Rightarrow> tour_item list \<Rightarrow> tour_item list" where
  "refresh_step s detailsMap i updatedTourItems =
     (let position = setting_or s (tour_key i ''_position'') ''right''
      in case map_of s (tour_key i ''_object'') of
           None \<Rightarrow> updatedTourItems
         | Some objectId \<Rightarrow>
             (case map_of s (tour_key i ''_text'') of
                None \<Rightarrow> updatedTourItems
              | Some txt \<Rightarrow>
                  if objectId \<noteq> [] \<and> txt \<noteq> [] then
                    updatedTourItems @
                      [\<lparr> item_objectId = objectId, item_text = txt, item_position = position,
                         item_details =
                           (case detailsMap objectId of
                              None \<Rightarrow> EmptyObject | Some d \<Rightarrow> d) \<rparr>]
                  else updatedTourItems))"

definition refreshTourItems :: "dashboard_object list \<Rightarrow> settings \<Rightarrow> app_state \<Rightarrow> app_state" where
  "refreshTourItems objects s st =
     (let rowCount = parseInt (setting_or s ''rowCount'' ''0'')
      in st \<lparr> selectedFont := setting_or s ''selectedFont'' ''Roboto'',
              backgroundColor := setting_or s ''backgroundColor'' ''#000000'',
              backgroundTransparency := setting_or s ''transparency'' ''70'',
              tourItems := for_loop 0 rowCount (refresh_step s (objectDetailsMap objects)) [],
              currentStep := Num 0 \<rparr>)"

text \<open>
  The effect on \<open>[tourItems, extensionPosition]\<close>, which runs after every refresh since the
  refresh stores a new array.
\<close>

definition positions_effect :: "app_state \<Rightarrow> app_state" where
  "positions_effect st =
     (if tourItems st \<noteq> [] \<and> extensionPosition st \<noteq> None
      then updateBoxPositions (Num 0) (tourItems st) st else st)"

text \<open>A load of the tour: the refresh (at start-up or when the dialog closes), then the effect.\<close>

definition load :: "dashboard_object list \<Rightarrow> settings \<Rightarrow> app_state \<Rightarrow> app_state" where
  "load objects s st = positions_effect (refreshTourItems objects s st)"

text \<open>
  \<open>initializeTableau\<close> on a present host API: the position of the dashboard object named
  "Tableau Tour" is stored when there is one, then the tour is loaded.
\<close>

definition initializeTableau :: "dashboard_object list \<Rightarrow> settings \<Rightarrow> app_state" where
  "initializeTableau objects s =
     load objects s
       (case find (\<lambda>obj. obj_name obj = ''Tableau Tour'') objects of
          None \<Rightarrow> initial_state
        | Some e \<Rightarrow>
            initial_state \<lparr> extensionPosition :=
              Some \<lparr> ext_x = obj_x e, ext_y = obj_y e,
                     ext_width = obj_width e, ext_height = obj_height e \<rparr> \<rparr>)"

definition handleNext :: "app_state \<Rightarrow> app_state" where
  "handleNext st =
     (let nextStep = js_rem (js_add (currentStep st) (Num 1)) (Num (int (length (tourItems st))))
      in updateBoxPositions nextStep (tourItems st)
           (st \<lparr> textVisible := False, currentStep := nextStep \<rparr>))"

definition handlePrevious :: "app_state \<Rightarrow> app_state" where
  "handlePrevious st =
     (let prevStep =
            js_rem (js_add (js_sub (currentStep st) (Num 1)) (Num (int (length (tourItems st)))))
                   (Num (int (length (tourItems st))))
      in updateBoxPositions prevStep (tourItems st)
           (st \<lparr> textVisible := False, currentStep := prevStep \<rparr>))"

text \<open>The click handler of the indicator circle number \<open>index\<close>.\<close>

definition indicatorClick :: "nat \<Rightarrow> app_state \<Rightarrow> app_state" where
  "indicatorClick index st =
     updateBoxPositions (Num (int index)) (tourItems st)
       (st \<lparr> textVisible := False, currentStep := Num (int index) \<rparr>)"

text \<open>
  What the component draws: one grey box per key of \<open>boxPositions\<close>, and the text box
  under the condition \<open>tourItems[currentStep] && textPosition && textVisible\<close>.
\<close>

definition rendered_boxes :: "app_state \<Rightarrow> box list" where
  "rendered_boxes st =
     (case boxPositions st of
        None \<Rightarrow> []
      | Some p \<Rightarrow> [pos_top p, pos_left p, pos_right p, pos_bottom p])"

definition rendered_text :: "app_state \<Rightarrow> (text_box \<times> string) option" where
  "rendered_text st =
     (case js_index (tourItems st) (currentStep st) of
        None \<Rightarrow> None
      | Some item \<Rightarrow>
          (case textPosition st of
             None \<Rightarrow> None
           | Some tb \<Rightarrow> if textVisible st then Some (tb, item_text item) else None))"

text \<open>
  The grey boxes are absolutely positioned children of the container box, whose width is
  \<open>extensionPosition.width\<close> pixels: a number is a width in pixels, and \<open>"100%"\<close> is the
  width of the container.
\<close>

fun width_px :: "ext_rect \<Rightarrow> css_size \<Rightarrow> rat jsnum option" where
  "width_px ext (Px n) = Some n"
| "width_px ext (Percent p) = Some (Num (ext_width ext * p / 100))"
| "width_px ext Auto = None"

section \<open>Configure.jsx: the rows of the dialog\<close>

record row =
  row_id :: nat
  row_object :: string
  row_text :: string
  row_position :: string

text \<open>
  The state of the dialog that is saved. The transparency is a number, or the empty string
  while the input field is empty (\<open>None\<close>). The list of dashboard objects offered in the
  object menu and the selected tab are state of the form only.
\<close>

record configure_state =
  rows :: "row list"
  cfg_selectedFont :: string
  cfg_backgroundColor :: string
  transparency :: "int jsnum option"

text \<open>The effect that runs when the dialog opens: the rows are read from the settings.\<close>

definition load_row :: "settings \<Rightarrow> nat \<Rightarrow> row list \<Rightarrow> row list" where
  "load_row s i loadedRows =
     loadedRows @
       [\<lparr> row_id = i,
          row_object = setting_or s (tour_key i ''_object'') [],
          row_text = setting_or s (tour_key i ''_text'') [],
          row_position = setting_or s (tour_key i ''_position'') ''right'' \<rparr>]"

definition loadSettings :: "settings \<Rightarrow> configure_state" where
  "loadSettings s =
     (let rowCount = parseInt (setting_or s ''rowCount'' ''0'')
      in \<lparr> rows = for_loop 0 rowCount (load_row s) [],
           cfg_selectedFont = setting_or s ''selectedFont'' ''Roboto'',
           cfg_backgroundColor = setting_or s ''backgroundColor'' ''#f9f9f9'',
           transparency =
             (case map_of s ''transparency'' of
                None \<Rightarrow> Some (Num 70) | Some v \<Rightarrow> Some (parseInt v)) \<rparr>)"

definition handleAddRow :: "row list \<Rightarrow> row list" where
  "handleAddRow prev =
     prev @ [\<lparr> row_id = length prev, row_object = [], row_text = [],
               row_position = ''right'' \<rparr>]"

definition handleDeleteRow :: "nat \<Rightarrow> row list \<Rightarrow> row list" where
  "handleDeleteRow ident prev = filter (\<lambda>r. row_id r \<noteq> ident) prev"

text \<open>The three \<open>onChange\<close> handlers of a row, each addressing the rows by id.\<close>

definition changeObject :: "nat \<Rightarrow> string \<Rightarrow> row list \<Rightarrow> row list" where
  "changeObject ident v prev =
     map (\<lambda>r. if row_id r = ident then r \<lparr> row_object := v \<rparr> else r) prev"

definition changeText :: "nat \<Rightarrow> string \<Rightarrow> row list \<Rightarrow> row list" where
  "changeText ident v prev =
     map (\<lambda>r. if row_id r = ident then r \<lparr> row_text := v \<rparr> else r) prev"

definition changePosition :: "nat \<Rightarrow> string \<Rightarrow> row list \<Rightarrow> row list" where
  "changePosition ident v prev =
     map (\<lambda>r. if row_id r = ident then r \<lparr> row_position := v \<rparr> else r) prev"

text \<open>
  The two move handlers swap neighbours in a copy of the array. The buttons call them
  with the index of an existing row. For any other index the destructuring assignment
  reads \<open>undefined\<close> beyond the array: where both places lie before the array it only
  sets properties that are no elements and the rows stay as they are; otherwise it
  stores \<open>undefined\<close> among the rows, a result outside the lists of rows, reported as
  \<open>UndefinedEntry\<close>.
\<close>

datatype anomaly = UndefinedEntry

definition handleMoveUp :: "int \<Rightarrow> 'a list \<Rightarrow> anomaly + 'a list" where
  "handleMoveUp index rws =
     (if index = 0 then Inr rws
      else if index < 0 then Inr rws
      else if index < int (length rws) then
        Inr (rws [nat index - 1 := rws ! nat index, nat index := rws ! (nat index - 1)])
      else Inl UndefinedEntry)"

definition handleMoveDown :: "int \<Rightarrow> 'a list \<Rightarrow> anomaly + 'a list" where
  "handleMoveDown index rws =
     (if index = int (length rws) - 1 then Inr rws
      else if index < - 1 then Inr rws
      else if 0 \<le> index \<and> index + 1 < int (length rws) then
        Inr (rws [nat index := rws ! (nat index + 1), nat index + 1 := rws ! nat index])
      else Inl UndefinedEntry)"

text \<open>One handler after another, stopping at an anomaly.\<close>

fun and_then :: "anomaly + 'a \<Rightarrow> ('a \<Rightarrow> anomaly + 'b) \<Rightarrow> anomaly + 'b" where
  "and_then (Inl e) f = Inl e"
| "and_then (Inr v) f = f v"

text \<open>
  \<open>handleSave\<close>: every existing key is erased, then the general settings, the number of
  rows and the three fields of each row are set. \<open>transparency.toString()\<close> of the empty
  string is the empty string.
\<close>

definition save_row :: "nat \<times> row \<Rightarrow> settings \<Rightarrow> settings" where
  "save_row ir s =
     (case ir of (index, r) \<Rightarrow>
        AList.update (tour_key index ''_position'') (row_position r)
          (AList.update (tour_key index ''_text'') (row_text r)
            (AList.update (tour_key index ''_object'') (row_object r) s)))"

definition handleSave :: "configure_state \<Rightarrow> settings \<Rightarrow> settings" where
  "handleSave st existingSettings =
     (let erased = fold AList.delete (map fst existingSettings) existingSettings;
          general =
            AList.update ''rowCount'' (dec (length (rows st)))
              (AList.update ''transparency''
                 (case transparency st of None \<Rightarrow> [] | Some t \<Rightarrow> js_toString t)
                 (AList.update ''backgroundColor'' (cfg_backgroundColor st)
                    (AList.update ''selectedFont'' (cfg_selectedFont st) erased)))
      in fold save_row (enumerate 0 (rows st)) general)"

text \<open>A tour step as the specification has it: target, text and anchor of a row.\<close>

definition step_of :: "row \<Rightarrow> string \<times> string \<times> string" where
  "step_of r = (row_object r, row_text r, row_position r)"

section \<open>Notions used to state the properties\<close>

text \<open>
  The states of the player: after the start-up load, after any number of clicks on the
  forward arrow, the back arrow and the indicator circles, and after the reload that
  \<open>configure\<close> runs when the dialog closes, with whatever settings and dashboard objects
  the host then reports. There is one circle per tour item, so a click on a circle
  carries the index of an existing item.
\<close>

inductive reachable :: "app_state \<Rightarrow> bool" where
  started: "reachable (initializeTableau objects s)"
| after_next: "reachable st \<Longrightarrow> reachable (handleNext st)"
| after_previous: "reachable st \<Longrightarrow> reachable (handlePrevious st)"
| after_indicator:
    "reachable st \<Longrightarrow> index < length (tourItems st) \<Longrightarrow> reachable (indicatorClick index st)"
| after_reload: "reachable st \<Longrightarrow> reachable (load objects s st)"

text \<open>On a tour with items the current step is an index of the tour.\<close>

definition player_invariant :: "app_state \<Rightarrow> bool" where
  "player_invariant st =
     (tourItems st = [] \<or> (\<exists>i. currentStep st = Num (int i) \<and> i < length (tourItems st)))"

text \<open>
  The sums of the tiling property, computed as JavaScript computes them on the stored
  boxes: left width plus target width plus right width, and top height plus target
  height plus bottom height.
\<close>

fun px_of :: "css_size \<Rightarrow> rat jsnum" where
  "px_of (Px n) = n"
| "px_of (Percent p) = NaN"
| "px_of Auto = NaN"

definition mask_width_sum :: "app_state \<Rightarrow> rat \<Rightarrow> rat jsnum" where
  "mask_width_sum st target_width =
     (case boxPositions st of
        None \<Rightarrow> NaN
      | Some p \<Rightarrow>
          dbl_add (dbl_add (px_of (box_width (pos_left p))) (Num target_width))
                  (px_of (box_width (pos_right p))))"

definition mask_height_sum :: "app_state \<Rightarrow> rat \<Rightarrow> rat jsnum" where
  "mask_height_sum st target_height =
     (case boxPositions st of
        None \<Rightarrow> NaN
      | Some p \<Rightarrow>
          dbl_add (dbl_add (box_height (pos_top p)) (Num target_height))
                  (box_height (pos_bottom p)))"

text \<open>The three suffixes of the keys of a row, and the field of a row that each one holds.\<close>

definition row_fields :: "string set" where
  "row_fields = {''_object'', ''_text'', ''_position''}"

definition field_of :: "string \<Rightarrow> row \<Rightarrow> string" where
  "field_of f r =
     (if f = ''_object'' then row_object r
      else if f = ''_text'' then row_text r else row_position r)"

text \<open>A setting that is present and not empty.\<close>

definition has_value :: "settings \<Rightarrow> string \<Rightarrow> bool" where
  "has_value s key = (case map_of s key of None \<Rightarrow> False | Some v \<Rightarrow> v \<noteq> [])"

text \<open>The tour item that the player builds from the settings of row \<open>i\<close>.\<close>

definition played_item :: "dashboard_object list \<Rightarrow> settings \<Rightarrow> nat \<Rightarrow> tour_item" where
  "played_item objects s i =
     \<lparr> item_objectId = setting_or s (tour_key i ''_object'') [],
       item_text = setting_or s (tour_key i ''_text'') [],
       item_position = setting_or s (tour_key i ''_position'') ''right'',
       item_details =
         (case objectDetailsMap objects (setting_or s (tour_key i ''_object'') []) of
            None \<Rightarrow> EmptyObject | Some d \<Rightarrow> d) \<rparr>"

text \<open>The row that the dialog builds from the settings of row \<open>i\<close>.\<close>

definition loaded_row :: "settings \<Rightarrow> nat \<Rightarrow> row" where
  "loaded_row s i =
     \<lparr> row_id = i,
       row_object = setting_or s (tour_key i ''_object'') [],
       row_text = setting_or s (tour_key i ''_text'') [],
       row_position = setting_or s (tour_key i ''_position'') ''right'' \<rparr>"

text \<open>Sample data: a dashboard with the extension and one worksheet, and a tour of two steps.\<close>

definition sample_objects :: "dashboard_object list" where
  "sample_objects =
     [\<lparr> obj_id = ''1'', obj_name = ''Tableau Tour'', obj_x = 0, obj_y = 0,
        obj_width = 800, obj_height = 600 \<rparr>,
      \<lparr> obj_id = ''2'', obj_name = ''Sales'', obj_x = 100, obj_y = 100,
        obj_width = 200, obj_height = 50 \<rparr>]"

definition sample_settings :: settings where
  "sample_settings =
     [(''rowCount'', ''2''),
      (''tour0_object'', ''2''), (''tour0_text'', ''Sales by region''),
      (''tour0_position'', ''right''),
      (''tour1_object'', ''2''), (''tour1_text'', ''Click a bar''),
      (''tour1_position'', ''bottom'')]"

text \<open>Settings of two rows, the first of which has no text yet.\<close>

definition draft_settings :: settings where
  "draft_settings =
     [(''rowCount'', ''2''),
      (''tour0_object'', ''2''), (''tour0_text'', []), (''tour0_position'', ''left''),
      (''tour1_object'', ''3''), (''tour1_text'', ''Profit'')]"

text \<open>A dialog with three rows, the last one still blank.\<close>

definition sample_dialog :: configure_state where
  "sample_dialog =
     \<lparr> rows =
         [\<lparr> row_id = 0, row_object = ''2'', row_text = ''Sales by region'',
            row_position = ''right'' \<rparr>,
          \<lparr> row_id = 1, row_object = ''3'', row_text = ''Profit'', row_position = ''left'' \<rparr>,
          \<lparr> row_id = 2, row_object = [], row_text = [], row_position = ''top'' \<rparr>],
       cfg_selectedFont = ''Lato'', cfg_backgroundColor = ''#336699'',
       transparency = Some (Num 55) \<rparr>"

text \<open>The settings that the dialog saves when every row has been deleted.\<close>

definition emptied_settings :: settings where
  "emptied_settings =
     [(''selectedFont'', ''Roboto''), (''backgroundColor'', ''#f9f9f9''),
      (''transparency'', ''70''), (''rowCount'', ''0'')]"

text \<open>A player state with a tour of three items, as it is after a load.\<close>

definition three_item_state :: app_state where
  "three_item_state =
     initial_state \<lparr> tourItems :=
       [\<lparr> item_objectId = ''2'', item_text = ''One'', item_position = ''right'',
          item_details = EmptyObject \<rparr>,
        \<lparr> item_objectId = ''3'', item_text = ''Two'', item_position = ''left'',
          item_details = EmptyObject \<rparr>,
        \<lparr> item_objectId = ''4'', item_text = ''Three'', item_position = ''top'',
          item_details = EmptyObject \<rparr>] \<rparr>"

section \<open>Basic facts about the player\<close>

lemma js_rem_nonneg: "0 \<le> a \<Longrightarrow> 0 < b \<Longrightarrow> js_rem (Num a) (Num b) = Num (a mod b)"
  by (cases "a = 0") auto

lemma js_index_Nil [simp]: "js_index [] i = None"
  by (cases i) simp_all

lemma updateBoxPositions_tourItems [simp]:
  "tourItems (updateBoxPositions i items st) = tourItems st"
  by (simp add: updateBoxPositions_def Let_def split: option.splits)

lemma updateBoxPositions_currentStep [simp]:
  "currentStep (updateBoxPositions i items st) = currentStep st"
  by (simp add: updateBoxPositions_def Let_def split: option.splits)

lemma handleNext_tourItems [simp]: "tourItems (handleNext st) = tourItems st"
  by (simp add: handleNext_def Let_def)

lemma handlePrevious_tourItems [simp]: "tourItems (handlePrevious st) = tourItems st"
  by (simp add: handlePrevious_def Let_def)

lemma indicatorClick_tourItems [simp]: "tourItems (indicatorClick k st) = tourItems st"
  by (simp add: indicatorClick_def)

lemma handleNext_currentStep:
  "currentStep (handleNext st) =
     js_rem (js_add (currentStep st) (Num 1)) (Num (int (length (tourItems st))))"
  by (simp add: handleNext_def Let_def)

lemma handlePrevious_currentStep:
  "currentStep (handlePrevious st) =
     js_rem (js_add (js_sub (currentStep st) (Num 1)) (Num (int (length (tourItems st)))))
            (Num (int (length (tourItems st))))"
  by (simp add: handlePrevious_def Let_def)

text \<open>One click forward or backward from an index of the tour.\<close>

lemma handleNext_in_range:
  assumes "currentStep st = Num (int i)" and "i < length (tourItems st)"
  shows "currentStep (handleNext st) = Num (int (Suc i mod length (tourItems st)))"
proof -
  have "js_rem (Num (int i + 1)) (Num (int (length (tourItems st))))
          = Num ((int i + 1) mod int (length (tourItems st)))"
    using assms(2) by (intro js_rem_nonneg) auto
  also have "(int i + 1) mod int (length (tourItems st)) = int (Suc i mod length (tourItems st))"
    by (simp add: zmod_int add.commute)
  finally show ?thesis
    using assms(1) by (simp add: handleNext_currentStep)
qed

lemma handlePrevious_in_range:
  assumes "currentStep st = Num (int i)" and "i < length (tourItems st)"
  shows "currentStep (handlePrevious st) =
           Num (int ((i + (length (tourItems st) - 1)) mod length (tourItems st)))"
proof -
  let ?n = "length (tourItems st)"
  have eq: "int i - 1 + int ?n = int (i + (?n - 1))"
    using assms(2) by (simp add: of_nat_diff)
  have "js_rem (Num (int i - 1 + int ?n)) (Num (int ?n)) = Num ((int i - 1 + int ?n) mod int ?n)"
    using assms(2) by (intro js_rem_nonneg) auto
  also have "(int i - 1 + int ?n) mod int ?n = int ((i + (?n - 1)) mod ?n)"
    unfolding eq by (simp add: zmod_int)
  finally show ?thesis
    using assms(1) by (simp add: handlePrevious_currentStep)
qed

text \<open>On an empty tour the remainder by the length is \<open>NaN\<close>, and no item is found.\<close>

lemma handleNext_empty:
  "tourItems st = [] \<Longrightarrow>
     handleNext st = st \<lparr> textVisible := False, currentStep := NaN \<rparr>"
  by (cases "currentStep st") (simp_all add: handleNext_def Let_def updateBoxPositions_def)

lemma handlePrevious_empty:
  "tourItems st = [] \<Longrightarrow>
     handlePrevious st = st \<lparr> textVisible := False, currentStep := NaN \<rparr>"
  by (cases "currentStep st") (simp_all add: handlePrevious_def Let_def updateBoxPositions_def)

lemma load_fields:
  "tourItems (load objects s st) = tourItems (refreshTourItems objects s st)"
  "currentStep (load objects s st) = Num 0"
  by (simp_all add: load_def positions_effect_def refreshTourItems_def Let_def)

lemma load_empty:
  "tourItems (refreshTourItems objects s st) = [] \<Longrightarrow>
     boxPositions (load objects s st) = boxPositions st \<and>
     textPosition (load objects s st) = textPosition st \<and>
     textVisible (load objects s st) = textVisible st"
  by (simp add: load_def positions_effect_def) (simp add: refreshTourItems_def Let_def)

section \<open>Decimal numerals, parsing and the keys of the settings\<close>

lemma below_ten: "d < 10 \<Longrightarrow> d \<in> {0, 1, 2, 3, 4, 5, 6, 7, 8, 9::nat}"
  by auto

lemma digit_char_is_digit: "d < 10 \<Longrightarrow> is_digit (digit_char d)"
  by (drule below_ten) (auto simp: digit_char_def is_digit_def)

lemma digit_val_digit_char: "d < 10 \<Longrightarrow> digit_val (digit_char d) = d"
  by (drule below_ten) (auto simp: digit_char_def digit_val_def)

lemma is_digit_plain:
  "is_digit c \<Longrightarrow> \<not> is_space c \<and> c \<noteq> CHR ''-'' \<and> c \<noteq> CHR ''+'' \<and> c \<noteq> CHR ''_''"
  by (auto simp: is_digit_def is_space_def)

lemma dec_digit: "n < 10 \<Longrightarrow> dec n = [digit_char n]"
  by (simp add: dec.simps)

lemma dec_digits: "list_all is_digit (dec n)"
proof (induction n rule: dec.induct)
  case (1 n)
  show ?case
  proof (cases "n < 10")
    case True
    then show ?thesis
      by (subst dec.simps) (simp add: digit_char_is_digit)
  next
    case False
    then have "list_all is_digit (dec (n div 10))"
      using 1 by simp
    then show ?thesis
      using False by (subst dec.simps) (simp add: digit_char_is_digit)
  qed
qed

lemma dec_not_Nil: "dec n \<noteq> []"
  by (subst dec.simps) simp

lemma digits_value_snoc: "digits_value (ds @ [c]) = 10 * digits_value ds + digit_val c"
  by (simp add: digits_value_def)

lemma digits_value_dec: "digits_value (dec n) = n"
proof (induction n rule: dec.induct)
  case (1 n)
  show ?case
  proof (cases "n < 10")
    case True
    then show ?thesis
      by (subst dec.simps) (simp add: digits_value_def digit_val_digit_char)
  next
    case False
    then have "digits_value (dec (n div 10)) = n div 10"
      using 1 by simp
    then show ?thesis
      using False by (subst dec.simps) (simp add: digits_value_snoc digit_val_digit_char)
  qed
qed

lemma dec_inject: "dec i = dec j \<Longrightarrow> i = j"
  by (metis digits_value_dec)

text \<open>Reading back the decimal form of a row count gives the count.\<close>

lemma parseInt_dec: "parseInt (dec n) = Num (int n)"
proof -
  obtain c cs where d: "dec n = c # cs"
    using dec_not_Nil [of n] by (cases "dec n") auto
  have all: "list_all is_digit (c # cs)"
    using dec_digits [of n] d by simp
  then have c: "is_digit c" by simp
  have tw: "takeWhile is_digit cs = cs"
    using all by (simp add: list_all_iff)
  have "parseInt (c # cs) = Num (int (digits_value (c # cs)))"
    using is_digit_plain [OF c] c by (simp add: parseInt_def tw)
  then show ?thesis
    using d digits_value_dec [of n] by simp
qed

lemma parseInt_small:
  "parseInt ''0'' = Num 0" "parseInt ''1'' = Num 1" "parseInt ''2'' = Num 2"
  by (simp_all add: parseInt_def is_space_def is_digit_def digits_value_def digit_val_def)

lemma tour_key_small:
  "tour_key 0 f = ''tour0'' @ f"
  "tour_key (Suc 0) f = ''tour1'' @ f"
  "tour_key (Suc (Suc 0)) f = ''tour2'' @ f"
  by (simp_all add: tour_key_def dec_digit digit_char_def)

text \<open>The keys of different rows or different fields are different strings.\<close>

lemma takeWhile_dec_field:
  "f \<in> row_fields \<Longrightarrow> takeWhile is_digit (dec i @ f) = dec i"
proof -
  assume "f \<in> row_fields"
  then have "takeWhile is_digit f = []"
    by (auto simp: row_fields_def is_digit_def)
  moreover have "\<forall>c \<in> set (dec i). is_digit c"
    using dec_digits [of i] by (simp add: list_all_iff)
  ultimately show ?thesis
    by simp
qed

lemma tour_key_inject:
  assumes "f \<in> row_fields" and "g \<in> row_fields" and "tour_key i f = tour_key j g"
  shows "i = j \<and> f = g"
proof -
  have eq: "dec i @ f = dec j @ g"
    using assms(3) by (simp add: tour_key_def)
  then have "takeWhile is_digit (dec i @ f) = takeWhile is_digit (dec j @ g)"
    by simp
  then have "dec i = dec j"
    using assms(1,2) by (simp add: takeWhile_dec_field)
  then show ?thesis
    using eq dec_inject by auto
qed

lemma tour_key_eq_iff:
  "f \<in> row_fields \<Longrightarrow> g \<in> row_fields \<Longrightarrow>
     tour_key i f = tour_key j g \<longleftrightarrow> i = j \<and> f = g"
  using tour_key_inject by blast

lemma tour_key_not_rowCount: "tour_key i f \<noteq> ''rowCount''"
  by (simp add: tour_key_def)

section \<open>The counting loop\<close>

lemma for_loop_stop: "\<not> js_less (Num (int i)) n \<Longrightarrow> for_loop i n body acc = acc"
  by (simp add: for_loop.simps)

lemma for_loop_step:
  "js_less (Num (int i)) n \<Longrightarrow> for_loop i n body acc = for_loop (Suc i) n body (body i acc)"
  by (subst for_loop.simps) simp

lemma for_loop_fold: "for_loop i (Num (int n)) body acc = fold body [i ..< n] acc"
proof (induction "n - i" arbitrary: i acc)
  case 0
  then show ?case
    by (subst for_loop.simps) simp
next
  case (Suc k)
  then have lt: "i < n" and k: "k = n - Suc i"
    by linarith+
  have "for_loop i (Num (int n)) body acc = for_loop (Suc i) (Num (int n)) body (body i acc)"
    using lt by (subst for_loop.simps) simp
  also have "\<dots> = fold body [Suc i ..< n] (body i acc)"
    using Suc(1) [OF k] .
  also have "\<dots> = fold body [i ..< n] acc"
    using lt by (simp add: upt_conv_Cons)
  finally show ?case .
qed

section \<open>Facts about double arithmetic\<close>

declare dbl_add.simps [simp del] dbl_sub.simps [simp del]

lemma dbl_NaN [simp]:
  "dbl_add NaN b = NaN" "dbl_add a NaN = NaN" "dbl_sub NaN b = NaN" "dbl_sub a NaN = NaN"
  by (cases a; cases b; simp add: dbl_add.simps dbl_sub.simps)+

lemma pow2_powi: "pow2 e = 2 powi e"
  by (simp add: pow2_def power_int_def field_simps)

lemma pow2_pos [simp]: "0 < pow2 e"
  by (simp add: pow2_powi)

lemma pow2_nonzero [simp]: "pow2 e \<noteq> 0"
  using pow2_pos [of e] by linarith

lemma pow2_not_le_zero [simp]: "\<not> pow2 e \<le> 0"
  using pow2_pos [of e] by linarith

lemma pow2_abs [simp]: "\<bar>pow2 e\<bar> = pow2 e"
  using pow2_pos [of e] by linarith

lemma pow2_add: "pow2 (i + j) = pow2 i * pow2 j"
  by (simp add: pow2_powi power_int_add)

lemma pow2_mono: "i \<le> j \<Longrightarrow> pow2 i \<le> pow2 j"
  by (simp add: pow2_powi power_int_increasing)

lemma pow2_less_imp: "pow2 i < pow2 j \<Longrightarrow> i < j"
  using pow2_mono [of j i] by (cases "i < j") auto

lemma pow2_of_nat: "pow2 (int n) = 2 ^ n"
  by (simp add: pow2_def)

lemma pow2_diff_nat: "pow2 (int m - int n) = 2 ^ m / 2 ^ n"
  by (simp add: pow2_powi power_int_diff)

text \<open>\<open>ilog2\<close> is the binary logarithm rounded down.\<close>

lemma ilog2_bounds:
  assumes "0 < a"
  shows "pow2 (ilog2 a) \<le> a \<and> a < pow2 (ilog2 a + 1)"
proof -
  obtain n d where qd: "quotient_of a = (n, d)"
    by (cases "quotient_of a")
  have d: "0 < d"
    using qd by (rule quotient_of_denom_pos)
  have a: "a = of_int n / of_int d"
    using qd by (rule quotient_of_div)
  have n: "0 < n"
    using assms d unfolding a by (simp add: zero_less_divide_iff)
  let ?N = "nat n" and ?D = "nat d"
  let ?bn = "floorlog 2 ?N" and ?bd = "floorlog 2 ?D"
  have a': "a = of_nat ?N / of_nat ?D"
    using n d unfolding a by simp
  have N: "2 ^ (?bn - 1) \<le> ?N" "?N < 2 ^ ?bn" and D: "2 ^ (?bd - 1) \<le> ?D" "?D < 2 ^ ?bd"
    using floorlog_bounds [of ?N 2] floorlog_bounds [of ?D 2] n d by simp_all
  have bn: "1 \<le> ?bn" and bd: "1 \<le> ?bd"
    using n d by (simp_all add: floorlog_def)
  have Nr: "(2::rat) ^ (?bn - 1) \<le> of_nat ?N" "(of_nat ?N :: rat) < 2 ^ ?bn"
    and Dr: "(2::rat) ^ (?bd - 1) \<le> of_nat ?D" "(of_nat ?D :: rat) < 2 ^ ?bd"
    using N D by (metis of_nat_le_iff of_nat_less_iff of_nat_numeral of_nat_power)+
  have Dpos: "(0::rat) < of_nat ?D"
    using d by simp
  let ?e0 = "int ?bn - int ?bd"
  have low: "pow2 (?e0 - 1) \<le> a"
  proof -
    have "?e0 - 1 = int (?bn - 1) - int ?bd"
      using bn by linarith
    then have "pow2 (?e0 - 1) = pow2 (int (?bn - 1) - int ?bd)"
      by (rule arg_cong)
    also have "\<dots> = 2 ^ (?bn - 1) / 2 ^ ?bd"
      by (rule pow2_diff_nat)
    also have "\<dots> \<le> of_nat ?N / 2 ^ ?bd"
      using Nr(1) by (simp add: divide_right_mono)
    also have "\<dots> \<le> of_nat ?N / of_nat ?D"
    proof -
      have prod_pos: "(0::rat) < 2 ^ ?bd * of_nat ?D"
        using Dpos by (intro mult_pos_pos) simp_all
      show ?thesis
        by (rule divide_left_mono [OF less_imp_le [OF Dr(2)] _ prod_pos]) simp
    qed
    finally show ?thesis
      unfolding a' .
  qed
  have high: "a < pow2 (?e0 + 1)"
  proof -
    have prod_pos: "(0::rat) < of_nat ?D * 2 ^ (?bd - 1)"
      using Dpos by (intro mult_pos_pos) simp_all
    have "a \<le> of_nat ?N / 2 ^ (?bd - 1)"
      unfolding a' by (rule divide_left_mono [OF Dr(1) _ prod_pos]) simp
    also have "\<dots> < 2 ^ ?bn / 2 ^ (?bd - 1)"
      using Nr(2) by (simp add: divide_strict_right_mono)
    also have "\<dots> = pow2 (?e0 + 1)"
    proof -
      have "?e0 + 1 = int ?bn - int (?bd - 1)"
        using bd by linarith
      then have "pow2 (?e0 + 1) = pow2 (int ?bn - int (?bd - 1))"
        by (rule arg_cong)
      then show ?thesis
        by (simp only: pow2_diff_nat)
    qed
    finally show ?thesis .
  qed
  show ?thesis
  proof (cases "pow2 ?e0 \<le> a")
    case True
    then have "ilog2 a = ?e0"
      by (simp add: ilog2_def qd)
    then show ?thesis
      using True high by simp
  next
    case False
    then have "ilog2 a = ?e0 - 1"
      by (simp add: ilog2_def qd)
    then show ?thesis
      using False low by simp
  qed
qed

lemma ilog2_unique:
  assumes "pow2 L \<le> a" and "a < pow2 (L + 1)"
  shows "ilog2 a = L"
proof -
  have pos: "0 < a"
    using assms(1) pow2_pos [of L] by linarith
  have b: "pow2 (ilog2 a) \<le> a" "a < pow2 (ilog2 a + 1)"
    using ilog2_bounds [OF pos] by simp_all
  have "ilog2 a < L + 1"
    using b(1) assms(2) by (intro pow2_less_imp) linarith
  moreover have "L < ilog2 a + 1"
    using b(2) assms(1) by (intro pow2_less_imp) linarith
  ultimately show ?thesis
    by linarith
qed

text \<open>Rounding at a known exponent: the way to evaluate \<open>round_to_double\<close> on a given number.\<close>

lemma round_to_double_at:
  assumes "pow2 (e + 52) \<le> \<bar>q\<bar>" and "\<bar>q\<bar> < pow2 (e + 53)"
  shows "round_to_double q = sgn q * of_int (round_half_even (\<bar>q\<bar> / pow2 e)) * pow2 e"
proof -
  have "ilog2 \<bar>q\<bar> = e + 52"
    using assms by (intro ilog2_unique) (simp_all add: add.commute add.left_commute)
  moreover have "q \<noteq> 0"
    using assms(1) by auto
  ultimately show ?thesis
    by (simp add: round_to_double_def)
qed

lemma round_half_even_int [simp]: "round_half_even (of_int z) = z"
  by (simp add: round_half_even_def)

lemma round_half_even_frac:
  assumes "0 < d"
  shows "round_half_even (of_int n / of_int d) =
           (if 2 * (n mod d) < d then n div d
            else if d < 2 * (n mod d) then n div d + 1
            else if even (n div d) then n div d else n div d + 1)"
proof -
  have f: "\<lfloor>(of_int n / of_int d :: rat)\<rfloor> = n div d"
    by (rule floor_divide_of_int_eq)
  have "(of_int n :: rat) = of_int (n div d) * of_int d + of_int (n mod d)"
    by (metis div_mult_mod_eq of_int_add of_int_mult)
  then have r: "(of_int n / of_int d :: rat) - of_int (n div d) = of_int (n mod d) / of_int d"
    using assms by (simp add: field_simps)
  have lt: "(of_int (n mod d) / of_int d :: rat) < 1 / 2 \<longleftrightarrow> 2 * (n mod d) < d"
  proof -
    have "(of_int (n mod d) / of_int d :: rat) < 1 / 2
            \<longleftrightarrow> (of_int (2 * (n mod d)) :: rat) < of_int d"
      using assms by (simp add: field_simps)
    then show ?thesis
      by (simp only: of_int_less_iff)
  qed
  have gt: "1 / 2 < (of_int (n mod d) / of_int d :: rat) \<longleftrightarrow> d < 2 * (n mod d)"
  proof -
    have "1 / 2 < (of_int (n mod d) / of_int d :: rat)
            \<longleftrightarrow> (of_int d :: rat) < of_int (2 * (n mod d))"
      using assms by (simp add: field_simps)
    then show ?thesis
      by (simp only: of_int_less_iff)
  qed
  show ?thesis
    unfolding round_half_even_def Let_def f r lt gt ..
qed

lemma round_half_even_numeral:
  "round_half_even (numeral n / numeral d) =
     (if 2 * (numeral n mod numeral d) < (numeral d :: int) then numeral n div numeral d
      else if (numeral d :: int) < 2 * (numeral n mod numeral d) then numeral n div numeral d + 1
      else if even (numeral n div numeral d :: int) then numeral n div numeral d
      else numeral n div numeral d + 1)"
  using round_half_even_frac [of "numeral d" "numeral n"] by simp

lemma round_half_even_whole: "round_half_even (numeral n) = numeral n"
  using round_half_even_int [of "numeral n"] by simp

lemmas dbl_eval = pow2_def round_half_even_numeral round_half_even_whole

text \<open>A double is left as it is; in particular an integer below \<open>2^53\<close>.\<close>

lemma round_exact:
  assumes "\<bar>k\<bar> < 2 ^ 53"
  shows "round_to_double (of_int k * pow2 e) = of_int k * pow2 e"
proof (cases "k = 0")
  case True
  then show ?thesis by (simp add: round_to_double_def)
next
  case False
  let ?q = "of_int k * pow2 e :: rat"
  have q0: "?q \<noteq> 0"
    using False by simp
  have absq: "\<bar>?q\<bar> = of_int \<bar>k\<bar> * pow2 e"
    by (simp add: abs_mult)
  have "of_int \<bar>k\<bar> < (2::rat) ^ 53"
    using assms by simp
  then have "of_int \<bar>k\<bar> * pow2 e < 2 ^ 53 * pow2 e"
    by (intro mult_strict_right_mono) simp_all
  moreover have "pow2 53 = 2 ^ 53"
    by (simp add: pow2_def)
  ultimately have lt: "\<bar>?q\<bar> < pow2 (53 + e)"
    unfolding absq by (simp add: pow2_add)
  have "pow2 (ilog2 \<bar>?q\<bar>) \<le> \<bar>?q\<bar>"
    using ilog2_bounds [of "\<bar>?q\<bar>"] q0 by simp
  then have below: "ilog2 \<bar>?q\<bar> < 53 + e"
    using lt by (intro pow2_less_imp) linarith
  define e' where "e' = ilog2 \<bar>?q\<bar> - 52"
  define j where "j = nat (e - e')"
  have j: "e = e' + int j"
    using below by (simp add: j_def e'_def)
  have pe: "pow2 e = pow2 e' * 2 ^ j"
    unfolding j by (simp add: pow2_add pow2_of_nat)
  have m: "\<bar>?q\<bar> / pow2 e' = of_int (\<bar>k\<bar> * 2 ^ j)"
    by (simp add: pe abs_mult)
  have "round_to_double ?q = sgn ?q * of_int (round_half_even (\<bar>?q\<bar> / pow2 e')) * pow2 e'"
    using q0 by (simp add: round_to_double_def e'_def Let_def)
  also have "\<dots> = sgn ?q * of_int (\<bar>k\<bar> * 2 ^ j) * pow2 e'"
    unfolding m round_half_even_int ..
  also have "\<dots> = sgn (of_int k) * of_int \<bar>k\<bar> * (pow2 e' * 2 ^ j)"
    by (simp add: sgn_mult)
  also have "\<dots> = of_int k * pow2 e"
    unfolding pe [symmetric] by (simp add: sgn_if)
  finally show ?thesis .
qed

lemma round_int: "\<bar>k\<bar> < 2 ^ 53 \<Longrightarrow> round_to_double (of_int k) = of_int k"
  using round_exact [of k 0] by (simp add: pow2_def)

lemma dbl_add_int:
  "\<bar>a + b\<bar> < 2 ^ 53 \<Longrightarrow> dbl_add (Num (of_int a)) (Num (of_int b)) = Num (of_int (a + b))"
  using round_int [of "a + b"] by (simp add: dbl_add.simps)

lemma dbl_sub_int:
  "\<bar>a - b\<bar> < 2 ^ 53 \<Longrightarrow> dbl_sub (Num (of_int a)) (Num (of_int b)) = Num (of_int (a - b))"
  using round_int [of "a - b"] by (simp add: dbl_sub.simps)

text \<open>The literal \<open>0.1\<close>, and the sum \<open>50 + 0.1\<close>, which is the double that \<open>50.1\<close> denotes.\<close>

lemma verticalOverlap_value: "verticalOverlap = 3602879701896397 / 36028797018963968"
  unfolding verticalOverlap_def
  by (subst round_to_double_at [where e = "- 56"]) (simp_all add: dbl_eval)

lemma fifty_plus_overlap: "dbl_add (Num 50) (Num verticalOverlap) = Num (round_to_double (501 / 10))"
proof -
  have "round_to_double (50 + 3602879701896397 / 36028797018963968)
          = 7050948166601933 / 140737488355328"
    by (subst round_to_double_at [where e = "- 47"]) (simp_all add: dbl_eval)
  moreover have "round_to_double (501 / 10) = 7050948166601933 / 140737488355328"
    by (subst round_to_double_at [where e = "- 47"]) (simp_all add: dbl_eval)
  ultimately show ?thesis
    by (simp only: dbl_add.simps verticalOverlap_value)
qed

section \<open>The grey boxes and the text box\<close>

text \<open>The tiling sums of a resolved item, in terms of the arithmetic of the code.\<close>

lemma mask_width_sum_resolved:
  "mask_width_sum
     (updateBoxPositions (Num 0)
        [\<lparr> item_objectId = oid, item_text = txt, item_position = pos,
           item_details = Details nm tx ty tw th \<rparr>]
        (st \<lparr> extensionPosition := Some ext \<rparr>)) tw =
   dbl_add (dbl_add (dbl_sub (Num tx) (Num (ext_x ext))) (Num tw))
           (dbl_sub (Num (ext_width ext)) (dbl_add (dbl_sub (Num tx) (Num (ext_x ext))) (Num tw)))"
  by (simp add: mask_width_sum_def updateBoxPositions_def grey_boxes_def Let_def)

lemma mask_height_sum_resolved:
  "mask_height_sum
     (updateBoxPositions (Num 0)
        [\<lparr> item_objectId = oid, item_text = txt, item_position = pos,
           item_details = Details nm tx ty tw th \<rparr>]
        (st \<lparr> extensionPosition := Some ext \<rparr>)) th =
   dbl_add (dbl_add (dbl_sub (Num ty) (Num (ext_y ext))) (Num th))
           (dbl_sub (Num (ext_height ext)) (dbl_add (dbl_sub (Num ty) (Num (ext_y ext))) (Num th)))"
  by (simp add: mask_height_sum_def updateBoxPositions_def grey_boxes_def Let_def)

text \<open>
  Claim C1 as stated fails on fractional coordinates. The extension is at \<open>(0, 0)\<close> and
  507.8 wide, the target is at \<open>x = 85.4\<close> and 63 wide. The left width is 85.4, the right
  width is \<open>507.8 - (85.4 + 63)\<close> rounded, and the sum of left width, target width and
  right width comes out as 507.79999999999995, the double just below 507.8.
\<close>

theorem mask_tiling_counterexample:
  "mask_width_sum
     (updateBoxPositions (Num 0)
        [\<lparr> item_objectId = ''2'', item_text = ''Sales by region'', item_position = ''right'',
           item_details = Details ''Sales'' (round_to_double (427 / 5)) 0 63 20 \<rparr>]
        (initial_state \<lparr> extensionPosition :=
           Some \<lparr> ext_x = 0, ext_y = 0, ext_width = round_to_double (2539 / 5),
                  ext_height = 300 \<rparr> \<rparr>)) 63
   \<noteq> Num (round_to_double (2539 / 5))"
proof -
  have x: "round_to_double (427 / 5) = 3004745376386253 / 35184372088832"
    by (subst round_to_double_at [where e = "- 46"]) (simp_all add: dbl_eval)
  have w: "round_to_double (2539 / 5) = 8933312073354445 / 17592186044416"
    by (subst round_to_double_at [where e = "- 44"]) (simp_all add: dbl_eval)
  have left: "dbl_sub (Num (3004745376386253 / 35184372088832)) (Num 0)
                = Num (3004745376386253 / 35184372088832)"
    unfolding dbl_sub.simps
    by (subst round_to_double_at [where e = "- 46"]) (simp_all add: dbl_eval)
  have upto: "dbl_add (Num (3004745376386253 / 35184372088832)) (Num 63)
                = Num (5221360817982669 / 35184372088832)"
    unfolding dbl_add.simps
    by (subst round_to_double_at [where e = "- 45"]) (simp_all add: dbl_eval)
  have right: "dbl_sub (Num (8933312073354445 / 17592186044416))
                       (Num (5221360817982669 / 35184372088832))
                = Num (3161315832181555 / 8796093022208)"
    unfolding dbl_sub.simps
    by (subst round_to_double_at [where e = "- 44"]) (simp_all add: dbl_eval)
  have total: "dbl_add (Num (5221360817982669 / 35184372088832))
                       (Num (3161315832181555 / 8796093022208))
                = Num (2233328018338611 / 4398046511104)"
    unfolding dbl_add.simps
    by (subst round_to_double_at [where e = "- 44"]) (simp_all add: dbl_eval)
  have "mask_width_sum
     (updateBoxPositions (Num 0)
        [\<lparr> item_objectId = ''2'', item_text = ''Sales by region'', item_position = ''right'',
           item_details = Details ''Sales'' (round_to_double (427 / 5)) 0 63 20 \<rparr>]
        (initial_state \<lparr> extensionPosition :=
           Some \<lparr> ext_x = 0, ext_y = 0, ext_width = round_to_double (2539 / 5),
                  ext_height = 300 \<rparr> \<rparr>)) 63
     = Num (2233328018338611 / 4398046511104)"
    unfolding mask_width_sum_resolved
    by (simp only: ext_rect.simps x w left upto right total)
  then show ?thesis
    unfolding w by simp
qed

text \<open>
  Claim C1, amended. For a tour item whose object was found and an extension rectangle,
  all with integer coordinates and sizes of absolute value at most \<open>2^50\<close>,
  \<open>updateBoxPositions\<close> stores boxes with left width \<open>tx - ex\<close>, right width
  \<open>ew - ((tx - ex) + tw)\<close>, top height \<open>ty - ey\<close> and bottom height \<open>eh - ((ty - ey) + th)\<close>;
  the left width, the target width and the right width add up to the width \<open>ew\<close> of the
  extension, and the top height, the target height and the bottom height add up to its
  height \<open>eh\<close>. Changing the overlap changes nothing but the heights of the left and the
  right box, and this for all coordinates.
\<close>

theorem mask_tiling:
  assumes "\<bar>tx\<bar> \<le> 2 ^ 50" and "\<bar>ty\<bar> \<le> 2 ^ 50" and "\<bar>tw\<bar> \<le> 2 ^ 50" and "\<bar>th\<bar> \<le> 2 ^ 50"
    and "\<bar>ex\<bar> \<le> 2 ^ 50" and "\<bar>ey\<bar> \<le> 2 ^ 50" and "\<bar>ew\<bar> \<le> 2 ^ 50" and "\<bar>eh\<bar> \<le> 2 ^ 50"
  shows
  "(let ext = \<lparr> ext_x = of_int ex, ext_y = of_int ey, ext_width = of_int ew,
                ext_height = of_int eh \<rparr>;
        st' = updateBoxPositions (Num 0)
                [\<lparr> item_objectId = oid, item_text = caption, item_position = pos,
                   item_details = Details nm (of_int tx) (of_int ty) (of_int tw) (of_int th) \<rparr>]
                (st \<lparr> extensionPosition := Some ext \<rparr>)
    in boxPositions st' =
         Some \<lparr> pos_top =
                  \<lparr> box_top = Num 0, box_left = Num 0, box_width = Percent 100,
                    box_height = Num (of_int (ty - ey)) \<rparr>,
                pos_left =
                  \<lparr> box_top = Num (of_int (ty - ey)), box_left = Num 0,
                    box_width = Px (Num (of_int (tx - ex))),
                    box_height = dbl_add (Num (of_int th)) (Num verticalOverlap) \<rparr>,
                pos_right =
                  \<lparr> box_top = Num (of_int (ty - ey)), box_left = Num (of_int ((tx - ex) + tw)),
                    box_width = Px (Num (of_int (ew - ((tx - ex) + tw)))),
                    box_height = dbl_add (Num (of_int th)) (Num verticalOverlap) \<rparr>,
                pos_bottom =
                  \<lparr> box_top = Num (of_int ((ty - ey) + th)), box_left = Num 0,
                    box_width = Percent 100,
                    box_height = Num (of_int (eh - ((ty - ey) + th))) \<rparr> \<rparr> \<and>
       mask_width_sum st' (of_int tw) = Num (of_int ew) \<and>
       mask_height_sum st' (of_int th) = Num (of_int eh)) \<and>
   grey_boxes overlap x y w h e =
     (grey_boxes 0 x y w h e)
       \<lparr> pos_left := (pos_left (grey_boxes 0 x y w h e)) \<lparr> box_height := dbl_add h (Num overlap) \<rparr>,
         pos_right := (pos_right (grey_boxes 0 x y w h e)) \<lparr> box_height := dbl_add h (Num overlap) \<rparr> \<rparr>"
proof -
  have p50: "(2::int) ^ 50 = 1125899906842624" and p53: "(2::int) ^ 53 = 9007199254740992"
    by simp_all
  note b = assms [unfolded p50]
  note add_int = dbl_add_int [unfolded p53] and sub_int = dbl_sub_int [unfolded p53]
  have ax: "dbl_sub (Num (of_int tx)) (Num (of_int ex)) = Num (of_int (tx - ex))"
    using b(1,5) by (intro sub_int) linarith
  have ay: "dbl_sub (Num (of_int ty)) (Num (of_int ey)) = Num (of_int (ty - ey))"
    using b(2,6) by (intro sub_int) linarith
  have sx: "dbl_add (Num (of_int (tx - ex))) (Num (of_int tw)) = Num (of_int ((tx - ex) + tw))"
    using b(1,5,3) by (intro add_int) linarith
  have sy: "dbl_add (Num (of_int (ty - ey))) (Num (of_int th)) = Num (of_int ((ty - ey) + th))"
    using b(2,6,4) by (intro add_int) linarith
  have rx: "dbl_sub (Num (of_int ew)) (Num (of_int ((tx - ex) + tw)))
              = Num (of_int (ew - ((tx - ex) + tw)))"
    using b(1,5,3,7) by (intro sub_int) linarith
  have ry: "dbl_sub (Num (of_int eh)) (Num (of_int ((ty - ey) + th)))
              = Num (of_int (eh - ((ty - ey) + th)))"
    using b(2,6,4,8) by (intro sub_int) linarith
  have tx_sum: "dbl_add (Num (of_int ((tx - ex) + tw))) (Num (of_int (ew - ((tx - ex) + tw))))
              = Num (of_int ew)"
    using b(7) add_int [of "(tx - ex) + tw" "ew - ((tx - ex) + tw)"] by simp
  have ty_sum: "dbl_add (Num (of_int ((ty - ey) + th))) (Num (of_int (eh - ((ty - ey) + th))))
              = Num (of_int eh)"
    using b(8) add_int [of "(ty - ey) + th" "eh - ((ty - ey) + th)"] by simp
  have boxes: "grey_boxes verticalOverlap (Num (of_int tx)) (Num (of_int ty)) (Num (of_int tw))
                 (Num (of_int th))
                 \<lparr> ext_x = of_int ex, ext_y = of_int ey, ext_width = of_int ew,
                   ext_height = of_int eh \<rparr> =
         \<lparr> pos_top =
                  \<lparr> box_top = Num 0, box_left = Num 0, box_width = Percent 100,
                    box_height = Num (of_int (ty - ey)) \<rparr>,
                pos_left =
                  \<lparr> box_top = Num (of_int (ty - ey)), box_left = Num 0,
                    box_width = Px (Num (of_int (tx - ex))),
                    box_height = dbl_add (Num (of_int th)) (Num verticalOverlap) \<rparr>,
                pos_right =
                  \<lparr> box_top = Num (of_int (ty - ey)), box_left = Num (of_int ((tx - ex) + tw)),
                    box_width = Px (Num (of_int (ew - ((tx - ex) + tw)))),
                    box_height = dbl_add (Num (of_int th)) (Num verticalOverlap) \<rparr>,
                pos_bottom =
                  \<lparr> box_top = Num (of_int ((ty - ey) + th)), box_left = Num 0,
                    box_width = Percent 100,
                    box_height = Num (of_int (eh - ((ty - ey) + th))) \<rparr> \<rparr>"
    unfolding grey_boxes_def Let_def ext_rect.simps ax ay sx sy rx ry ..
  have stored: "boxPositions (updateBoxPositions (Num 0)
                [\<lparr> item_objectId = oid, item_text = caption, item_position = pos,
                   item_details = Details nm (of_int tx) (of_int ty) (of_int tw) (of_int th) \<rparr>]
                (st \<lparr> extensionPosition := Some E \<rparr>)) =
          Some (grey_boxes verticalOverlap (Num (of_int tx)) (Num (of_int ty)) (Num (of_int tw))
                 (Num (of_int th)) E)" for E
    by (simp add: updateBoxPositions_def Let_def)
  have wsum: "mask_width_sum (updateBoxPositions (Num 0)
                [\<lparr> item_objectId = oid, item_text = caption, item_position = pos,
                   item_details = Details nm (of_int tx) (of_int ty) (of_int tw) (of_int th) \<rparr>]
                (st \<lparr> extensionPosition := Some \<lparr> ext_x = of_int ex, ext_y = of_int ey,
                   ext_width = of_int ew, ext_height = of_int eh \<rparr> \<rparr>)) (of_int tw)
              = Num (of_int ew)"
    unfolding mask_width_sum_resolved ext_rect.simps ax sx rx tx_sum ..
  have hsum: "mask_height_sum (updateBoxPositions (Num 0)
                [\<lparr> item_objectId = oid, item_text = caption, item_position = pos,
                   item_details = Details nm (of_int tx) (of_int ty) (of_int tw) (of_int th) \<rparr>]
                (st \<lparr> extensionPosition := Some \<lparr> ext_x = of_int ex, ext_y = of_int ey,
                   ext_width = of_int ew, ext_height = of_int eh \<rparr> \<rparr>)) (of_int th)
              = Num (of_int eh)"
    unfolding mask_height_sum_resolved ext_rect.simps ay sy ry ty_sum ..
  have overlap_only: "grey_boxes overlap x y w h e =
     (grey_boxes 0 x y w h e)
       \<lparr> pos_left := (pos_left (grey_boxes 0 x y w h e)) \<lparr> box_height := dbl_add h (Num overlap) \<rparr>,
         pos_right := (pos_right (grey_boxes 0 x y w h e)) \<lparr> box_height := dbl_add h (Num overlap) \<rparr> \<rparr>"
    by (simp add: grey_boxes_def Let_def)
  show ?thesis
    unfolding Let_def stored boxes using wsum hsum overlap_only by simp
qed

text \<open>The scenario of claim C2, whose coordinates are integers.\<close>

theorem mask_tiling_witness:
  "\<bar>100::int\<bar> \<le> 2 ^ 50 \<and> \<bar>200::int\<bar> \<le> 2 ^ 50 \<and> \<bar>50::int\<bar> \<le> 2 ^ 50 \<and> \<bar>0::int\<bar> \<le> 2 ^ 50 \<and>
   \<bar>800::int\<bar> \<le> 2 ^ 50 \<and> \<bar>600::int\<bar> \<le> 2 ^ 50 \<and>
   mask_width_sum
     (updateBoxPositions (Num 0)
        [\<lparr> item_objectId = ''2'', item_text = ''Sales by region'', item_position = ''right'',
           item_details = Details ''Sales'' 100 100 200 50 \<rparr>]
        (initial_state \<lparr> extensionPosition :=
           Some \<lparr> ext_x = 0, ext_y = 0, ext_width = 800, ext_height = 600 \<rparr> \<rparr>)) 200
     = Num 800 \<and>
   mask_height_sum
     (updateBoxPositions (Num 0)
        [\<lparr> item_objectId = ''2'', item_text = ''Sales by region'', item_position = ''right'',
           item_details = Details ''Sales'' 100 100 200 50 \<rparr>]
        (initial_state \<lparr> extensionPosition :=
           Some \<lparr> ext_x = 0, ext_y = 0, ext_width = 800, ext_height = 600 \<rparr> \<rparr>)) 50
     = Num 600"
  using mask_tiling [where tx = 100 and ty = 100 and tw = 200 and th = 50 and ex = 0 and ey = 0
      and ew = 800 and eh = 600 and oid = "''2''" and caption = "''Sales by region''"
      and pos = "''right''" and nm = "''Sales''" and st = initial_state]
  by (simp add: Let_def)

lemma scenario_boxes:
  "grey_boxes verticalOverlap (Num 100) (Num 100) (Num 200) (Num 50)
     \<lparr> ext_x = 0, ext_y = 0, ext_width = 800, ext_height = 600 \<rparr> =
   \<lparr> pos_top =
       \<lparr> box_top = Num 0, box_left = Num 0, box_width = Percent 100, box_height = Num 100 \<rparr>,
     pos_left =
       \<lparr> box_top = Num 100, box_left = Num 0, box_width = Px (Num 100),
         box_height = Num (round_to_double (501 / 10)) \<rparr>,
     pos_right =
       \<lparr> box_top = Num 100, box_left = Num 300, box_width = Px (Num 500),
         box_height = Num (round_to_double (501 / 10)) \<rparr>,
     pos_bottom =
       \<lparr> box_top = Num 150, box_left = Num 0, box_width = Percent 100,
         box_height = Num 450 \<rparr> \<rparr>"
proof -
  have "dbl_sub (Num 100) (Num 0) = Num 100"
    using dbl_sub_int [of 100 0] by simp
  moreover have "dbl_add (Num 100) (Num 200) = Num 300"
    using dbl_add_int [of 100 200] by simp
  moreover have "dbl_sub (Num 800) (Num 300) = Num 500"
    using dbl_sub_int [of 800 300] by simp
  moreover have "dbl_add (Num 100) (Num 50) = Num 150"
    using dbl_add_int [of 100 50] by simp
  moreover have "dbl_sub (Num 600) (Num 150) = Num 450"
    using dbl_sub_int [of 600 150] by simp
  ultimately show ?thesis
    by (simp add: grey_boxes_def Let_def fifty_plus_overlap)
qed

lemma scenario_text_box:
  "text_box_position ''right'' (Num 100) (Num 100) (Num 200) (Num 50)
     \<lparr> ext_x = 0, ext_y = 0, ext_width = 800, ext_height = 600 \<rparr> =
   \<lparr> tb_width = Num 300, tb_height = Auto, tb_top = Num 100, tb_left = Num 310 \<rparr>"
proof -
  have "dbl_sub (Num 100) (Num 0) = Num 100"
    using dbl_sub_int [of 100 0] by simp
  moreover have "dbl_add (Num 100) (Num 200) = Num 300"
    using dbl_add_int [of 100 200] by simp
  moreover have "dbl_add (Num 300) (Num 10) = Num 310"
    using dbl_add_int [of 300 10] by simp
  ultimately show ?thesis
    by (simp add: text_box_position_def Let_def maxTextBoxWidth_def textPadding_def)
qed

text \<open>
  Claim C2 as stated fails: for the extension at \<open>(0, 0)\<close> of size 800 by 600, the target at
  \<open>(100, 100)\<close> of size 200 by 50 and the position \<open>right\<close>, the stored boxes are not the
  four rectangles of the claim, because the width that the code stores for the top and
  the bottom box is the string \<open>"100%"\<close> and not the number 800. (The height 50.1 of the
  claim is the double that the literal denotes.)
\<close>

theorem scenario_widths_counterexample:
  "boxPositions
     (updateBoxPositions (Num 0)
        [\<lparr> item_objectId = ''2'', item_text = ''Sales by region'', item_position = ''right'',
           item_details = Details ''Sales'' 100 100 200 50 \<rparr>]
        (initial_state \<lparr> extensionPosition :=
           Some \<lparr> ext_x = 0, ext_y = 0, ext_width = 800, ext_height = 600 \<rparr> \<rparr>))
   \<noteq> Some \<lparr> pos_top =
               \<lparr> box_top = Num 0, box_left = Num 0, box_width = Px (Num 800),
                 box_height = Num 100 \<rparr>,
             pos_left =
               \<lparr> box_top = Num 100, box_left = Num 0, box_width = Px (Num 100),
                 box_height = Num (round_to_double (501 / 10)) \<rparr>,
             pos_right =
               \<lparr> box_top = Num 100, box_left = Num 300, box_width = Px (Num 500),
                 box_height = Num (round_to_double (501 / 10)) \<rparr>,
             pos_bottom =
               \<lparr> box_top = Num 150, box_left = Num 0, box_width = Px (Num 800),
                 box_height = Num 450 \<rparr> \<rparr>"
  by (simp add: updateBoxPositions_def grey_boxes_def Let_def initial_state_def)

text \<open>
  Claim C2, amended. In that scenario the left box is \<open>{top: 100, left: 0, width: 100,
  height: 50.1}\<close>, the right box \<open>{top: 100, left: 300, width: 500, height: 50.1}\<close>, the top
  box \<open>{top: 0, left: 0, width: "100%", height: 100}\<close> and the bottom box \<open>{top: 150, left: 0,
  width: "100%", height: 450}\<close>, where \<open>"100%"\<close> of the container is 800 pixels and 50.1 is
  the double that the literal denotes; the text box is \<open>{top: 100, left: 310, width: 300}\<close>
  with height \<open>"auto"\<close>, and it is visible.
\<close>

theorem scenario_layout:
  "(let ext = \<lparr> ext_x = 0, ext_y = 0, ext_width = 800, ext_height = 600 \<rparr>;
        st = updateBoxPositions (Num 0)
               [\<lparr> item_objectId = ''2'', item_text = ''Sales by region'',
                  item_position = ''right'',
                  item_details = Details ''Sales'' 100 100 200 50 \<rparr>]
               (initial_state \<lparr> extensionPosition := Some ext \<rparr>)
    in boxPositions st =
         Some \<lparr> pos_top =
                  \<lparr> box_top = Num 0, box_left = Num 0, box_width = Percent 100,
                    box_height = Num 100 \<rparr>,
                pos_left =
                  \<lparr> box_top = Num 100, box_left = Num 0, box_width = Px (Num 100),
                    box_height = Num (round_to_double (501 / 10)) \<rparr>,
                pos_right =
                  \<lparr> box_top = Num 100, box_left = Num 300, box_width = Px (Num 500),
                    box_height = Num (round_to_double (501 / 10)) \<rparr>,
                pos_bottom =
                  \<lparr> box_top = Num 150, box_left = Num 0, box_width = Percent 100,
                    box_height = Num 450 \<rparr> \<rparr> \<and>
       map (\<lambda>b. width_px ext (box_width b)) (rendered_boxes st) =
         [Some (Num 800), Some (Num 100), Some (Num 500), Some (Num 800)] \<and>
       textPosition st =
         Some \<lparr> tb_width = Num 300, tb_height = Auto, tb_top = Num 100, tb_left = Num 310 \<rparr> \<and>
       textVisible st)"
  by (simp add: updateBoxPositions_def Let_def initial_state_def rendered_boxes_def
        scenario_boxes scenario_text_box)

section \<open>The current step\<close>

lemma invariant_load: "player_invariant (load objects s st)"
proof (cases "tourItems (load objects s st) = []")
  case True
  then show ?thesis
    by (simp add: player_invariant_def)
next
  case False
  then have "currentStep (load objects s st) = Num (int 0) \<and>
             0 < length (tourItems (load objects s st))"
    by (simp add: load_fields)
  then show ?thesis
    unfolding player_invariant_def by blast
qed

lemma invariant_started: "player_invariant (initializeTableau objects s)"
  unfolding initializeTableau_def by (rule invariant_load)

lemma invariant_next: "player_invariant st \<Longrightarrow> player_invariant (handleNext st)"
proof (cases "tourItems st = []")
  case True
  then show ?thesis
    by (simp add: player_invariant_def)
next
  case False
  assume "player_invariant st"
  then obtain i where i: "currentStep st = Num (int i)" "i < length (tourItems st)"
    using False by (auto simp: player_invariant_def)
  have "Suc i mod length (tourItems st) < length (tourItems st)"
    using i(2) by (intro mod_less_divisor) linarith
  then show ?thesis
    using False handleNext_in_range [OF i] by (auto simp: player_invariant_def)
qed

lemma invariant_previous: "player_invariant st \<Longrightarrow> player_invariant (handlePrevious st)"
proof (cases "tourItems st = []")
  case True
  then show ?thesis
    by (simp add: player_invariant_def)
next
  case False
  assume "player_invariant st"
  then obtain i where i: "currentStep st = Num (int i)" "i < length (tourItems st)"
    using False by (auto simp: player_invariant_def)
  have "(i + (length (tourItems st) - 1)) mod length (tourItems st) < length (tourItems st)"
    using i(2) by (intro mod_less_divisor) linarith
  then show ?thesis
    using False handlePrevious_in_range [OF i] by (auto simp: player_invariant_def)
qed

lemma invariant_indicator:
  "index < length (tourItems st) \<Longrightarrow> player_invariant (indicatorClick index st)"
  by (auto simp: player_invariant_def indicatorClick_def)

lemma reachable_invariant: "reachable st \<Longrightarrow> player_invariant st"
  by (induction rule: reachable.induct)
     (simp_all add: invariant_started invariant_next invariant_previous invariant_indicator
        invariant_load)

text \<open>
  The part of the index property that holds in every state of the player, reloads
  included: on a tour with items the current step is a number \<open>i\<close> with
  \<open>0 \<le> i < length\<close>; on an empty tour no item is current and no text box is drawn.
\<close>

lemma reachable_index_in_range:
  assumes "reachable st"
  shows "(tourItems st \<noteq> [] \<longrightarrow>
            (\<exists>i. currentStep st = Num i \<and> 0 \<le> i \<and> i < int (length (tourItems st)))) \<and>
         (tourItems st = [] \<longrightarrow>
            js_index (tourItems st) (currentStep st) = None \<and> rendered_text st = None)"
proof (cases "tourItems st = []")
  case True
  then show ?thesis
    by (simp add: rendered_text_def)
next
  case False
  have "player_invariant st"
    using assms by (rule reachable_invariant)
  then obtain i where "currentStep st = Num (int i)" "i < length (tourItems st)"
    using False by (auto simp: player_invariant_def)
  then have "currentStep st = Num (int i) \<and> 0 \<le> int i \<and> int i < int (length (tourItems st))"
    by simp
  then show ?thesis
    using False by blast
qed

lemma sample_tour_items:
  "tourItems (initializeTableau sample_objects sample_settings) =
     [\<lparr> item_objectId = ''2'', item_text = ''Sales by region'', item_position = ''right'',
        item_details = Details ''Sales'' 100 100 200 50 \<rparr>,
      \<lparr> item_objectId = ''2'', item_text = ''Click a bar'', item_position = ''bottom'',
        item_details = Details ''Sales'' 100 100 200 50 \<rparr>]"
  by (simp add: initializeTableau_def load_fields refreshTourItems_def setting_or_def
        sample_objects_def sample_settings_def parseInt_small for_loop_step for_loop_stop
        refresh_step_def tour_key_small objectDetailsMap_def)

lemma sample_boxes:
  "boxPositions (initializeTableau sample_objects sample_settings) =
     Some (grey_boxes verticalOverlap (Num 100) (Num 100) (Num 200) (Num 50)
             \<lparr> ext_x = 0, ext_y = 0, ext_width = 800, ext_height = 600 \<rparr>)"
proof -
  have items: "tourItems (refreshTourItems sample_objects sample_settings st) =
     [\<lparr> item_objectId = ''2'', item_text = ''Sales by region'', item_position = ''right'',
        item_details = Details ''Sales'' 100 100 200 50 \<rparr>,
      \<lparr> item_objectId = ''2'', item_text = ''Click a bar'', item_position = ''bottom'',
        item_details = Details ''Sales'' 100 100 200 50 \<rparr>]" for st
    using sample_tour_items by (simp add: initializeTableau_def load_fields refreshTourItems_def)
  have ext: "extensionPosition (refreshTourItems sample_objects sample_settings st) =
               extensionPosition st" for st
    by (simp add: refreshTourItems_def Let_def)
  have found: "(case find (\<lambda>obj. obj_name obj = ''Tableau Tour'') sample_objects of
                  None \<Rightarrow> initial_state
                | Some e \<Rightarrow>
                    initial_state \<lparr> extensionPosition :=
                      Some \<lparr> ext_x = obj_x e, ext_y = obj_y e,
                             ext_width = obj_width e, ext_height = obj_height e \<rparr> \<rparr>) =
               initial_state \<lparr> extensionPosition :=
                 Some \<lparr> ext_x = 0, ext_y = 0, ext_width = 800, ext_height = 600 \<rparr> \<rparr>"
    by (simp add: sample_objects_def)
  show ?thesis
    unfolding initializeTableau_def found
    by (simp add: load_def positions_effect_def items ext updateBoxPositions_def Let_def)
qed

lemma emptied_settings_no_items:
  "tourItems (refreshTourItems objects emptied_settings st) = []"
  by (simp add: refreshTourItems_def emptied_settings_def setting_or_def parseInt_small
        for_loop_stop)

text \<open>
  Claim C3 (index invariant), evaluated on the code. The sample tour of two steps is
  loaded at start-up, which stores the four grey boxes around the first target. Then the
  dialog is closed with every row deleted, and \<open>configure\<close> reloads the tour. The tour is
  now empty and no item is current, but the four boxes are still stored and drawn: the
  effect that computes the boxes is skipped on an empty tour, and nothing clears them.
\<close>

theorem reload_keeps_grey_boxes:
  "(let st = load sample_objects emptied_settings
               (initializeTableau sample_objects sample_settings)
    in tourItems st = [] \<and>
       currentStep st = Num 0 \<and>
       js_index (tourItems st) (currentStep st) = None \<and>
       rendered_text st = None \<and>
       rendered_boxes st =
         [\<lparr> box_top = Num 0, box_left = Num 0, box_width = Percent 100, box_height = Num 100 \<rparr>,
          \<lparr> box_top = Num 100, box_left = Num 0, box_width = Px (Num 100),
            box_height = Num (round_to_double (501 / 10)) \<rparr>,
          \<lparr> box_top = Num 100, box_left = Num 300, box_width = Px (Num 500),
            box_height = Num (round_to_double (501 / 10)) \<rparr>,
          \<lparr> box_top = Num 150, box_left = Num 0, box_width = Percent 100,
            box_height = Num 450 \<rparr>])"
proof -
  let ?before = "initializeTableau sample_objects sample_settings"
  let ?st = "load sample_objects emptied_settings ?before"
  have items: "tourItems ?st = []"
    by (simp add: load_fields emptied_settings_no_items)
  have step: "currentStep ?st = Num 0"
    by (simp add: load_fields)
  have "boxPositions ?st = boxPositions ?before"
    using load_empty [OF emptied_settings_no_items] by simp
  then have boxes: "rendered_boxes ?st =
         [\<lparr> box_top = Num 0, box_left = Num 0, box_width = Percent 100, box_height = Num 100 \<rparr>,
          \<lparr> box_top = Num 100, box_left = Num 0, box_width = Px (Num 100),
            box_height = Num (round_to_double (501 / 10)) \<rparr>,
          \<lparr> box_top = Num 100, box_left = Num 300, box_width = Px (Num 500),
            box_height = Num (round_to_double (501 / 10)) \<rparr>,
          \<lparr> box_top = Num 150, box_left = Num 0, box_width = Percent 100,
            box_height = Num 450 \<rparr>]"
    by (simp add: rendered_boxes_def sample_boxes scenario_boxes)
  show ?thesis
    unfolding Let_def using items step boxes by (simp add: rendered_text_def)
qed

text \<open>That state is one the player reaches.\<close>

lemma reload_state_reachable:
  "reachable (load sample_objects emptied_settings
                (initializeTableau sample_objects sample_settings))"
  by (intro after_reload started)

text \<open>
  Claim C4 (empty tour), evaluated on the code. With no settings the loaded tour is empty
  and the current step is 0. A click on the forward or on the back arrow then stores
  \<open>NaN\<close> as the current step (a remainder by the length 0), so the state of the player
  is not what it was before the click.
\<close>

theorem next_on_empty_tour:
  "tourItems (initializeTableau [] []) = [] \<and>
   currentStep (initializeTableau [] []) = Num 0 \<and>
   boxPositions (initializeTableau [] []) = None \<and>
   textPosition (initializeTableau [] []) = None \<and>
   currentStep (handleNext (initializeTableau [] [])) = NaN \<and>
   currentStep (handlePrevious (initializeTableau [] [])) = NaN \<and>
   handleNext (initializeTableau [] []) \<noteq> initializeTableau [] [] \<and>
   handlePrevious (initializeTableau [] []) \<noteq> initializeTableau [] []"
proof -
  have init: "initializeTableau [] [] = initial_state"
    by (simp add: initializeTableau_def load_def positions_effect_def refreshTourItems_def
          setting_or_def parseInt_small for_loop_stop initial_state_def)
  have items: "tourItems initial_state = []" and step: "currentStep initial_state = Num 0"
    and blank: "boxPositions initial_state = None" "textPosition initial_state = None"
    by (simp_all add: initial_state_def)
  have n: "currentStep (handleNext initial_state) = NaN"
    by (simp add: handleNext_empty items)
  have p: "currentStep (handlePrevious initial_state) = NaN"
    by (simp add: handlePrevious_empty items)
  have "handleNext initial_state \<noteq> initial_state"
    using n step by (metis jsnum.distinct(1))
  moreover have "handlePrevious initial_state \<noteq> initial_state"
    using p step by (metis jsnum.distinct(1))
  ultimately show ?thesis
    using init items step blank n p by simp
qed

section \<open>Going round the tour\<close>

lemma next_iterated:
  assumes "currentStep st = Num (int i)" and "i < length (tourItems st)"
  shows "tourItems ((handleNext ^^ k) st) = tourItems st \<and>
         currentStep ((handleNext ^^ k) st) = Num (int ((i + k) mod length (tourItems st)))"
proof (induction k)
  case 0
  then show ?case using assms by simp
next
  case (Suc k)
  let ?n = "length (tourItems st)"
  let ?s = "(handleNext ^^ k) st"
  have n: "0 < ?n" using assms(2) by linarith
  have "currentStep (handleNext ?s) = Num (int (Suc ((i + k) mod ?n) mod length (tourItems ?s)))"
    using Suc n by (intro handleNext_in_range) auto
  then show ?case
    using Suc by (simp add: mod_Suc_eq)
qed

lemma previous_iterated:
  assumes "currentStep st = Num (int i)" and "i < length (tourItems st)"
  shows "tourItems ((handlePrevious ^^ k) st) = tourItems st \<and>
         currentStep ((handlePrevious ^^ k) st) =
           Num (int ((i + k * (length (tourItems st) - 1)) mod length (tourItems st)))"
proof (induction k)
  case 0
  then show ?case using assms by simp
next
  case (Suc k)
  let ?n = "length (tourItems st)"
  let ?s = "(handlePrevious ^^ k) st"
  have n: "0 < ?n" using assms(2) by linarith
  have "currentStep (handlePrevious ?s) =
          Num (int (((i + k * (?n - 1)) mod ?n + (length (tourItems ?s) - 1))
                      mod length (tourItems ?s)))"
    using Suc n by (intro handlePrevious_in_range) auto
  moreover have "((i + k * (?n - 1)) mod ?n + (?n - 1)) mod ?n = (i + Suc k * (?n - 1)) mod ?n"
  proof -
    have "((i + k * (?n - 1)) mod ?n + (?n - 1)) mod ?n = ((i + k * (?n - 1)) + (?n - 1)) mod ?n"
      by (rule mod_add_left_eq)
    also have "(i + k * (?n - 1)) + (?n - 1) = i + Suc k * (?n - 1)"
      by simp
    finally show ?thesis .
  qed
  ultimately show ?case
    using Suc by simp
qed

text \<open>
  Claim C5 (circular navigation). On a tour of \<open>n \<ge> 1\<close> items with the current step 0,
  \<open>n\<close> clicks on the forward arrow lead back to step 0, and so do \<open>n\<close> clicks on the back
  arrow.
\<close>

theorem circular_navigation:
  assumes "1 \<le> length (tourItems st)" and "currentStep st = Num 0"
  shows "currentStep ((handleNext ^^ length (tourItems st)) st) = Num 0 \<and>
         currentStep ((handlePrevious ^^ length (tourItems st)) st) = Num 0"
proof -
  let ?n = "length (tourItems st)"
  have c: "currentStep st = Num (int 0)"
    using assms(2) by simp
  have n: "0 < ?n"
    using assms(1) by linarith
  have "(0 + ?n * (?n - 1)) mod ?n = 0"
    by simp
  then show ?thesis
    using next_iterated [OF c n, of ?n] previous_iterated [OF c n, of ?n] by simp
qed

text \<open>Three clicks forward, and three clicks back, on a tour of three items.\<close>

theorem circular_navigation_witness:
  "1 \<le> length (tourItems three_item_state) \<and>
   currentStep three_item_state = Num 0 \<and>
   currentStep ((handleNext ^^ 3) three_item_state) = Num 0 \<and>
   currentStep ((handlePrevious ^^ 3) three_item_state) = Num 0"
proof -
  have len: "length (tourItems three_item_state) = 3"
    and cur: "currentStep three_item_state = Num 0"
    by (simp_all add: three_item_state_def initial_state_def)
  have one: "1 \<le> length (tourItems three_item_state)"
    unfolding len by simp
  show ?thesis
    using circular_navigation [OF one cur] one cur unfolding len by blast
qed

section \<open>A step whose object is not on the dashboard\<close>

text \<open>
  Claim C6 (unknown target), evaluated on the code. The dashboard holds the extension
  only, and the one step of the tour names the object \<open>9\<close>. After the load the details of
  the item are the empty object, which passes the guard of \<open>updateBoxPositions\<close>: four
  grey boxes and a text position are stored, with \<open>NaN\<close> wherever a coordinate of the
  target enters, the text box is made visible, and the component draws the text of the
  step.
\<close>

theorem unknown_target_is_laid_out:
  "(let st = initializeTableau
       [\<lparr> obj_id = ''1'', obj_name = ''Tableau Tour'', obj_x = 0, obj_y = 0,
           obj_width = 800, obj_height = 600 \<rparr>]
       [(''rowCount'', ''1''), (''tour0_object'', ''9''), (''tour0_text'', ''Hello''),
        (''tour0_position'', ''right'')]
    in tourItems st =
         [\<lparr> item_objectId = ''9'', item_text = ''Hello'', item_position = ''right'',
            item_details = EmptyObject \<rparr>] \<and>
       currentStep st = Num 0 \<and>
       boxPositions st =
         Some \<lparr> pos_top =
                  \<lparr> box_top = Num 0, box_left = Num 0, box_width = Percent 100,
                    box_height = NaN \<rparr>,
                pos_left =
                  \<lparr> box_top = NaN, box_left = Num 0, box_width = Px NaN, box_height = NaN \<rparr>,
                pos_right =
                  \<lparr> box_top = NaN, box_left = NaN, box_width = Px NaN, box_height = NaN \<rparr>,
                pos_bottom =
                  \<lparr> box_top = NaN, box_left = Num 0, box_width = Percent 100,
                    box_height = NaN \<rparr> \<rparr> \<and>
       textPosition st =
         Some \<lparr> tb_width = Num 300, tb_height = Auto, tb_top = NaN, tb_left = NaN \<rparr> \<and>
       textVisible st \<and>
       length (rendered_boxes st) = 4 \<and>
       rendered_text st =
         Some (\<lparr> tb_width = Num 300, tb_height = Auto, tb_top = NaN, tb_left = NaN \<rparr>,
               ''Hello''))"
  by (simp add: initializeTableau_def load_def positions_effect_def
        refreshTourItems_def setting_or_def parseInt_small for_loop_step for_loop_stop
        refresh_step_def tour_key_small objectDetailsMap_def
        initial_state_def updateBoxPositions_def grey_boxes_def text_box_position_def
        maxTextBoxWidth_def rendered_text_def rendered_boxes_def Let_def)

section \<open>The rows of the dialog\<close>

lemma swap_back:
  assumes "Suc j < length xs"
  shows "(xs [j := xs ! Suc j, Suc j := xs ! j])
           [j := (xs [j := xs ! Suc j, Suc j := xs ! j]) ! Suc j,
            Suc j := (xs [j := xs ! Suc j, Suc j := xs ! j]) ! j] = xs"
  using assms by (simp add: list_eq_iff_nth_eq nth_list_update)

text \<open>
  Claim C7 (reordering). Moving the row at index 0 up leaves the rows as they are, and so
  does moving the row at the last index \<open>n - 1\<close> down; for an index \<open>i\<close> with
  \<open>1 \<le> i < n\<close>, moving row \<open>i\<close> up and then row \<open>i - 1\<close> down gives back the original
  rows.
\<close>

theorem reorder_invariants:
  "handleMoveUp 0 rws = Inr rws \<and>
   handleMoveDown (int (length rws) - 1) rws = Inr rws \<and>
   (1 \<le> i \<and> i < int (length rws) \<longrightarrow>
      and_then (handleMoveUp i rws) (handleMoveDown (i - 1)) = Inr rws)"
proof -
  have up: "handleMoveUp 0 rws = Inr rws"
    by (simp add: handleMoveUp_def)
  have down: "handleMoveDown (int (length rws) - 1) rws = Inr rws"
    by (simp add: handleMoveDown_def)
  have both: "and_then (handleMoveUp i rws) (handleMoveDown (i - 1)) = Inr rws"
    if i: "1 \<le> i" "i < int (length rws)"
  proof -
    define j where "j = nat (i - 1)"
    have j: "Suc j < length rws" and ni: "nat i = Suc j" "nat i - 1 = j"
      and nd: "nat (i - 1) = j" "nat (i - 1) + 1 = Suc j"
      using i by (simp_all add: j_def)
    let ?up = "rws [j := rws ! Suc j, Suc j := rws ! j]"
    have "handleMoveUp i rws = Inr ?up"
      using i by (simp add: handleMoveUp_def ni)
    moreover have "handleMoveDown (i - 1) ?up = Inr (?up [j := ?up ! Suc j, Suc j := ?up ! j])"
      using i j by (simp add: handleMoveDown_def nd)
    ultimately show ?thesis
      using swap_back [OF j] by simp
  qed
  show ?thesis
    using up down both by blast
qed

text \<open>Three rows: the middle one is moved up, which swaps the first two, and down again.\<close>

theorem reorder_invariants_witness:
  "handleMoveUp 0 [''a'', ''b'', ''c''] = Inr [''a'', ''b'', ''c''] \<and>
   handleMoveDown 2 [''a'', ''b'', ''c''] = Inr [''a'', ''b'', ''c''] \<and>
   (1::int) \<le> 1 \<and> (1::int) < int (length [''a'', ''b'', ''c'']) \<and>
   handleMoveUp 1 [''a'', ''b'', ''c''] = Inr [''b'', ''a'', ''c''] \<and>
   and_then (handleMoveUp 1 [''a'', ''b'', ''c'']) (handleMoveDown (1 - 1)) =
     Inr [''a'', ''b'', ''c'']"
  using reorder_invariants [of "[''a'', ''b'', ''c'']" 1] by (simp add: handleMoveUp_def)

text \<open>
  Claim C8 (removing one step), evaluated on the code. Three rows are added and given the
  texts A, B and C; the first row is deleted and a fourth row is added. The new row gets
  the id 2, the number of rows at that moment, which the row C already has. Deleting the
  new row then removes every row with the id 2: two rows go, and only B is left.
\<close>

theorem delete_removes_two_rows:
  "(let rws =
          handleAddRow (handleDeleteRow 0
            (changeText 2 ''C'' (changeText 1 ''B'' (changeText 0 ''A''
               (handleAddRow (handleAddRow (handleAddRow [])))))))
    in map row_id rws = [1, 2, 2] \<and>
       map row_text rws = [''B'', ''C'', []] \<and>
       row_id (rws ! 2) = 2 \<and>
       map row_text (handleDeleteRow 2 rws) = [''B''] \<and>
       length (handleDeleteRow 2 rws) = length rws - 2)"
  by (simp add: handleAddRow_def handleDeleteRow_def changeText_def)

section \<open>Saving the rows and reading them back\<close>

lemma map_of_save_row:
  "map_of (save_row (i, r) s) k =
     (if k = tour_key i ''_position'' then Some (row_position r)
      else if k = tour_key i ''_text'' then Some (row_text r)
      else if k = tour_key i ''_object'' then Some (row_object r)
      else map_of s k)"
  by (simp add: save_row_def update_conv')

lemma map_of_save_row_field:
  assumes "f \<in> row_fields"
  shows "map_of (save_row (k, r) s) (tour_key i f) =
           (if i = k then Some (field_of f r) else map_of s (tour_key i f))"
proof -
  have fields: "''_position'' \<in> row_fields" "''_text'' \<in> row_fields" "''_object'' \<in> row_fields"
    by (simp_all add: row_fields_def)
  have "f = ''_object'' \<or> f = ''_text'' \<or> f = ''_position''"
    using assms by (auto simp: row_fields_def)
  then show ?thesis
    by (elim disjE) (simp_all add: map_of_save_row tour_key_eq_iff fields field_of_def)
qed

text \<open>After all rows are written, the key of row \<open>i\<close> and field \<open>f\<close> holds that field of row \<open>i\<close>.\<close>

lemma saved_field:
  assumes "f \<in> row_fields"
  shows "map_of (fold save_row (enumerate k rs) g) (tour_key i f) =
           (if k \<le> i \<and> i < k + length rs then Some (field_of f (rs ! (i - k)))
            else map_of g (tour_key i f))"
proof (induction rs arbitrary: k g)
  case Nil
  then show ?case by auto
next
  case (Cons r rs)
  have unfolded:
    "map_of (fold save_row (enumerate k (r # rs)) g) (tour_key i f) =
       (if Suc k \<le> i \<and> i < Suc k + length rs then Some (field_of f (rs ! (i - Suc k)))
        else if i = k then Some (field_of f r) else map_of g (tour_key i f))"
    by (simp add: Cons.IH map_of_save_row_field [OF assms])
  show ?case
  proof (cases "i = k")
    case True
    then show ?thesis
      unfolding unfolded by simp
  next
    case False
    then have "(i - k) = Suc (i - Suc k)" if "k \<le> i"
      using that by linarith
    then show ?thesis
      unfolding unfolded using False by auto
  qed
qed

lemma saved_rowCount:
  "map_of (fold save_row (enumerate k rs) g) ''rowCount'' = map_of g ''rowCount''"
proof (induction rs arbitrary: k g)
  case Nil
  then show ?case by simp
next
  case (Cons r rs)
  have ne: "''rowCount'' \<noteq> tour_key k f" for f
    using tour_key_not_rowCount [of k f] by metis
  show ?case
    by (simp add: Cons.IH map_of_save_row ne)
qed

lemma handleSave_rowCount:
  "map_of (handleSave st ex) ''rowCount'' = Some (dec (length (rows st)))"
  by (simp add: handleSave_def Let_def saved_rowCount update_conv')

lemma handleSave_field:
  assumes "f \<in> row_fields" and "i < length (rows st)"
  shows "map_of (handleSave st ex) (tour_key i f) = Some (field_of f (rows st ! i))"
  using assms(2) by (simp add: handleSave_def Let_def saved_field [OF assms(1)])

lemma fold_load_row: "fold (load_row s) [0 ..< n] [] = map (loaded_row s) [0 ..< n]"
  by (induction n) (simp_all add: load_row_def loaded_row_def)

lemma loadSettings_rows:
  assumes "parseInt (setting_or s ''rowCount'' ''0'') = Num (int n)"
  shows "rows (loadSettings s) = map (loaded_row s) [0 ..< n]"
  by (simp add: loadSettings_def assms for_loop_fold fold_load_row)

text \<open>
  Claim C9 (round trip through the settings). For every state of the dialog whose rows
  carry a position (one of the four sides, or any other non-empty string) and whatever
  the settings held before: saving with \<open>handleSave\<close> and reading the saved settings back
  as the dialog does gives rows with the same objects, texts and positions in the same
  order, numbered from 0.
\<close>

theorem settings_round_trip:
  assumes "\<forall>r \<in> set (rows st). row_position r \<noteq> []"
  shows "map step_of (rows (loadSettings (handleSave st existingSettings))) =
           map step_of (rows st) \<and>
         map row_id (rows (loadSettings (handleSave st existingSettings))) =
           [0 ..< length (rows st)]"
proof -
  let ?s = "handleSave st existingSettings"
  let ?n = "length (rows st)"
  have fields: "''_position'' \<in> row_fields" "''_text'' \<in> row_fields" "''_object'' \<in> row_fields"
    by (simp_all add: row_fields_def)
  have count: "parseInt (setting_or ?s ''rowCount'' ''0'') = Num (int ?n)"
    by (simp add: setting_or_def handleSave_rowCount dec_not_Nil parseInt_dec)
  have obj: "setting_or ?s (tour_key i ''_object'') [] = row_object (rows st ! i)"
    if "i < ?n" for i
    using that by (simp add: setting_or_def handleSave_field [OF fields(3)] field_of_def)
  have txt_eq: "setting_or ?s (tour_key i ''_text'') [] = row_text (rows st ! i)"
    if "i < ?n" for i
    using that by (simp add: setting_or_def handleSave_field [OF fields(2)] field_of_def)
  have pos: "setting_or ?s (tour_key i ''_position'') ''right'' = row_position (rows st ! i)"
    if "i < ?n" for i
    using that assms by (simp add: setting_or_def handleSave_field [OF fields(1)] field_of_def)
  have "map step_of (rows (loadSettings ?s)) = map step_of (rows st)"
    by (rule nth_equalityI)
       (simp_all add: loadSettings_rows [OF count] loaded_row_def step_of_def obj txt_eq pos)
  moreover have "map row_id (rows (loadSettings ?s)) = [0 ..< ?n]"
    by (rule nth_equalityI) (simp_all add: loadSettings_rows [OF count] loaded_row_def)
  ultimately show ?thesis
    by simp
qed

text \<open>Three rows, saved over older settings of seven rows, and read back.\<close>

theorem settings_round_trip_witness:
  "list_all (\<lambda>r. row_position r \<noteq> []) (rows sample_dialog) \<and>
   map step_of (rows (loadSettings (handleSave sample_dialog
      [(''rowCount'', ''7''), (''tour5_text'', ''old'')]))) =
     [(''2'', ''Sales by region'', ''right''), (''3'', ''Profit'', ''left''), ([], [], ''top'')] \<and>
   map row_id (rows (loadSettings (handleSave sample_dialog
      [(''rowCount'', ''7''), (''tour5_text'', ''old'')]))) = [0, 1, 2]"
proof -
  have positions: "\<forall>r \<in> set (rows sample_dialog). row_position r \<noteq> []"
    by (simp add: sample_dialog_def)
  have three: "[0 ..< length (rows sample_dialog)] = [0, 1, 2]"
    by (simp add: sample_dialog_def upt_rec)
  show ?thesis
    using settings_round_trip [OF positions, of "[(''rowCount'', ''7''), (''tour5_text'', ''old'')]"]
    unfolding three by (simp add: sample_dialog_def step_of_def)
qed

section \<open>What the player keeps of the saved rows\<close>

lemma refresh_step_eq:
  "refresh_step s (objectDetailsMap objects) i acc =
     (if has_value s (tour_key i ''_object'') \<and> has_value s (tour_key i ''_text'')
      then acc @ [played_item objects s i] else acc)"
  by (auto simp: refresh_step_def has_value_def played_item_def setting_or_def Let_def
           split: option.splits)

lemma fold_refresh_step:
  "fold (refresh_step s (objectDetailsMap objects)) [0 ..< n] [] =
     map (played_item objects s)
       (filter (\<lambda>i. has_value s (tour_key i ''_object'') \<and> has_value s (tour_key i ''_text''))
          [0 ..< n])"
  by (induction n) (simp_all add: refresh_step_eq)

text \<open>
  Claim C10 (incomplete steps are dropped from playback). When the row count of the
  settings reads as \<open>n\<close>, the tour of the player consists of the items of exactly those
  indices below \<open>n\<close>, in ascending order, whose object setting and text setting are both
  present and not empty, so it has at most \<open>n\<close> items; the dialog, reading the same
  settings, shows all \<open>n\<close> rows, with an empty field for a missing or empty setting.
\<close>

theorem playback_drops_incomplete_steps:
  assumes "parseInt (setting_or s ''rowCount'' ''0'') = Num (int n)"
  shows "tourItems (refreshTourItems objects s st) =
           map (played_item objects s)
             (filter (\<lambda>i. has_value s (tour_key i ''_object'') \<and>
                           has_value s (tour_key i ''_text'')) [0 ..< n]) \<and>
         length (tourItems (refreshTourItems objects s st)) \<le> n \<and>
         rows (loadSettings s) = map (loaded_row s) [0 ..< n]"
proof -
  have items: "tourItems (refreshTourItems objects s st) =
           map (played_item objects s)
             (filter (\<lambda>i. has_value s (tour_key i ''_object'') \<and>
                           has_value s (tour_key i ''_text'')) [0 ..< n])"
    by (simp add: refreshTourItems_def assms for_loop_fold fold_refresh_step)
  have "length (filter (\<lambda>i. has_value s (tour_key i ''_object'') \<and>
                           has_value s (tour_key i ''_text'')) [0 ..< n]) \<le> length [0 ..< n]"
    by (rule length_filter_le)
  then have "length (tourItems (refreshTourItems objects s st)) \<le> n"
    unfolding items by simp
  then show ?thesis
    using items loadSettings_rows [OF assms] by simp
qed

text \<open>
  Two saved rows, the first without text: the player keeps the second row only, while
  the dialog shows both.
\<close>

theorem playback_drops_incomplete_steps_witness:
  "parseInt (setting_or draft_settings ''rowCount'' ''0'') = Num (int 2) \<and>
   tourItems (refreshTourItems [] draft_settings initial_state) =
     [\<lparr> item_objectId = ''3'', item_text = ''Profit'', item_position = ''right'',
        item_details = EmptyObject \<rparr>] \<and>
   length (tourItems (refreshTourItems [] draft_settings initial_state)) < 2 \<and>
   rows (loadSettings draft_settings) =
     [\<lparr> row_id = 0, row_object = ''2'', row_text = [], row_position = ''left'' \<rparr>,
      \<lparr> row_id = 1, row_object = ''3'', row_text = ''Profit'', row_position = ''right'' \<rparr>]"
proof -
  have count: "parseInt (setting_or draft_settings ''rowCount'' ''0'') = Num (int 2)"
    by (simp add: draft_settings_def setting_or_def parseInt_small)
  have two: "[0 ..< 2] = [0, Suc 0]"
    by (simp add: upt_rec)
  show ?thesis
    using playback_drops_incomplete_steps [OF count, of "[]" initial_state] count
    unfolding two
    by (simp add: has_value_def played_item_def loaded_row_def tour_key_small
          draft_settings_def setting_or_def objectDetailsMap_def)
qed

end
